theory Spec2Isabelle
  imports Main
begin

section \<open>The Etch packet builder of python-anvil\<close>

text \<open>
  A shallow embedding of \<^verbatim>\<open>api_resources/mutations/create_etch_packet.py\<close>: the class
  \<^verbatim>\<open>CreateEtchPacket\<close>, its constructor and its methods. The builder never reassigns
  its own attributes after construction: every change goes into the list and dict objects
  its attributes refer to. These objects live in an explicit store, and the builder and
  the payload hold references into it, so that sharing between the two can be stated.
\<close>

subsection \<open>Python values, exceptions and truthiness\<close>

datatype json =
    JNull
  | JBool bool
  | JInt int
  | JStr string
  | JList "json list"
  | JDict "(string \<times> json) list"

text \<open>
  The exception classes. The module raises \<^verbatim>\<open>TypeError\<close> and \<^verbatim>\<open>ValueError\<close>; a
  \<^verbatim>\<open>ValueError\<close> carries its \<^verbatim>\<open>__cause__\<close>, set by \<^verbatim>\<open>raise ... from e\<close>. The spec
  calls a \<^verbatim>\<open>TypeError\<close> a ConfigurationError and a \<^verbatim>\<open>ValueError\<close> a ValidationError.
  An \<^verbatim>\<open>AttributeError\<close> is what reading a missing attribute of an object raises.
\<close>

datatype exn =
    TypeError string
  | ValueError string "exn option"
  | AttributeError string

fun str_exn :: "exn \<Rightarrow> string" where
  "str_exn (TypeError m) = m"
| "str_exn (ValueError m c) = m"
| "str_exn (AttributeError m) = m"

fun is_ValueError :: "exn \<Rightarrow> bool" where
  "is_ValueError (ValueError m c) = True"
| "is_ValueError (TypeError m) = False"
| "is_ValueError (AttributeError m) = False"

fun cause :: "exn \<Rightarrow> exn option" where
  "cause (ValueError m c) = c"
| "cause (TypeError m) = None"
| "cause (AttributeError m) = None"

definition squote :: "string \<Rightarrow> string" where
  "squote s = CHR 0x27 # s @ [CHR 0x27]"

definition truthy_str :: "string option \<Rightarrow> bool" where
  \<comment> \<open>\<^verbatim>\<open>None\<close> and the empty string are falsy\<close>
  "truthy_str s = (case s of None \<Rightarrow> False | Some v \<Rightarrow> v \<noteq> [])"

definition truthy_int :: "int option \<Rightarrow> bool" where
  \<comment> \<open>\<^verbatim>\<open>None\<close> and \<^verbatim>\<open>0\<close> are falsy\<close>
  "truthy_int r = (case r of None \<Rightarrow> False | Some n \<Rightarrow> n \<noteq> 0)"

definition or_zero :: "int option \<Rightarrow> int" where
  \<comment> \<open>\<^verbatim>\<open>(s.routing_order or 0)\<close>\<close>
  "or_zero r = (if truthy_int r then (case r of Some n \<Rightarrow> n | None \<Rightarrow> 0) else 0)"

fun py_max :: "int list \<Rightarrow> int option" where
  \<comment> \<open>\<^verbatim>\<open>max(xs)\<close>; it raises on the empty list, which is \<open>None\<close> here\<close>
  "py_max [] = None"
| "py_max (x # xs) = Some (fold max xs x)"

fun dict_set :: "(string \<times> 'v) list \<Rightarrow> string \<Rightarrow> 'v \<Rightarrow> (string \<times> 'v) list" where
  \<comment> \<open>\<^verbatim>\<open>d[k] = v\<close> on an insertion-ordered dict: an existing key keeps its place\<close>
  "dict_set [] k v = [(k, v)]"
| "dict_set ((k', v') # d) k v = (if k' = k then (k, v) # d else (k', v') # dict_set d k v)"

subsection \<open>Signers and attachments\<close>

text \<open>
  Modelled from the spec: the types \<^verbatim>\<open>EtchSigner\<close>, \<^verbatim>\<open>SignerField\<close>,
  \<^verbatim>\<open>DocumentUpload\<close>, \<^verbatim>\<open>SignatureField\<close>, \<^verbatim>\<open>Base64Upload\<close> and
  \<^verbatim>\<open>AttachableEtchFile\<close> are declared in \<^verbatim>\<open>api_resources/payload.py\<close>, which is not
  among the sources. The records below carry the fields the builder reads or writes and
  the fields the example script passes. A signer's \<open>routing_order\<close> and \<open>s_id\<close> are
  optional; its \<open>signer_type\<close> is a plain string that only \<^verbatim>\<open>add_signer\<close> checks.
\<close>

record signer_field =
  file_id :: string
  field_id :: string

record etch_signer =
  s_name :: string
  s_email :: string
  s_id :: "string option"
  routing_order :: "int option"
  signer_type :: string
  s_fields :: "signer_field list"

record signature_field =
  sf_id :: string
  sf_type :: string
  page_num :: int
  rect :: "int \<times> int \<times> int \<times> int"

text \<open>
  The \<^verbatim>\<open>name\<close> of a byte stream, when it has one: the path that the file was opened
  with, a string, or the file descriptor that it was opened on, an integer. A stream in
  memory (an \<^verbatim>\<open>io.BytesIO\<close>) has no attribute \<^verbatim>\<open>name\<close>.
\<close>

datatype stream_name =
    StrName string
  | FdName int

text \<open>
  What \<^verbatim>\<open>DocumentUpload.file\<close> holds: a byte stream (an \<^verbatim>\<open>io.BufferedIOBase\<close>, with
  its \<^verbatim>\<open>name\<close>, \<open>None\<close> when the stream has no such attribute, and its
  \<^verbatim>\<open>content_type\<close> attribute, \<open>None\<close> when the attribute is missing or is
  \<^verbatim>\<open>None\<close>), or a \<^verbatim>\<open>Base64Upload\<close> (its data and filename), which is no stream.
\<close>

datatype upload =
    BufferedFile "stream_name option" "string option"
  | Base64Upload string string

record document_upload =
  d_id :: string
  title :: string
  d_file :: upload
  d_fields :: "signature_field list"

text \<open>
  An \<^verbatim>\<open>AttachableEtchFile\<close> is a \<^verbatim>\<open>DocumentUpload\<close> or a reference to a file that
  was uploaded before (its id and the id of the uploaded template).
\<close>

datatype attachable =
    DocumentUpload document_upload
  | EtchCastRef string string

fun attachable_id :: "attachable \<Rightarrow> string" where
  "attachable_id (DocumentUpload d) = d_id d"
| "attachable_id (EtchCastRef i c) = i"

definition truthy_file :: "attachable \<Rightarrow> bool" where
  \<comment> \<open>the \<^verbatim>\<open>if f\<close> of the comprehensions: an attachment object is always truthy\<close>
  "truthy_file f = True"

datatype enable_emails =
    EnableAll bool
  | EnableFor "string list"

subsection \<open>The store\<close>

text \<open>
  Lists of signers, lists of attachments and dicts of fill payloads are mutable objects.
  Each kind has its cells, addressed by references; \<open>fresh\<close> is the next reference never
  handed out. \<open>entropy\<close> and \<open>drawn\<close> are the random source that the identifier
  generator reads.
\<close>

type_synonym ref = nat

record store =
  signer_lists :: "ref \<Rightarrow> etch_signer list"
  file_lists :: "ref \<Rightarrow> attachable list"
  dicts :: "ref \<Rightarrow> (string \<times> json) list"
  fresh :: ref
  entropy :: "nat \<Rightarrow> string"
  drawn :: nat

definition new_signer_list :: "store \<Rightarrow> etch_signer list \<Rightarrow> ref \<times> store" where
  "new_signer_list h xs =
     (fresh h, h\<lparr>signer_lists := (signer_lists h)(fresh h := xs), fresh := Suc (fresh h)\<rparr>)"

definition new_file_list :: "store \<Rightarrow> attachable list \<Rightarrow> ref \<times> store" where
  "new_file_list h xs =
     (fresh h, h\<lparr>file_lists := (file_lists h)(fresh h := xs), fresh := Suc (fresh h)\<rparr>)"

definition new_dict :: "store \<Rightarrow> (string \<times> json) list \<Rightarrow> ref \<times> store" where
  "new_dict h d =
     (fresh h, h\<lparr>dicts := (dicts h)(fresh h := d), fresh := Suc (fresh h)\<rparr>)"

definition create_unique_id :: "string \<Rightarrow> store \<Rightarrow> string \<times> store" where
  \<comment> \<open>Modelled from the spec: \<^verbatim>\<open>create_unique_id\<close> of \<^verbatim>\<open>utils\<close>, which is not among
      the sources: the prefix followed by a random suffix.\<close>
  "create_unique_id prefix h = (prefix @ entropy h (drawn h), h\<lparr>drawn := Suc (drawn h)\<rparr>)"

subsection \<open>The payload\<close>

text \<open>
  Modelled from the spec: \<^verbatim>\<open>CreateEtchPacketPayload\<close> and \<^verbatim>\<open>CreateEtchFilePayload\<close>
  are declared in \<^verbatim>\<open>api_resources/payload.py\<close>, which is not among the sources. The
  spec describes the payload as a snapshot that owns copies of the signer list and of the
  attachment list taken at the moment of materialization, with the resolved fill-payload
  map wrapped as its data block. So the constructors allocate cells of their own and copy
  the contents of the lists and of the dict handed to them.
\<close>

record create_etch_packet_payload =
  p_is_test :: bool
  p_is_draft :: bool
  p_name :: "string option"
  p_signers :: ref
  p_files :: ref
  p_data :: ref
  p_signature_email_subject :: "string option"
  p_signature_email_body :: "string option"
  p_signature_page_options :: "(string \<times> json) list"
  p_webhook_url :: "string option"
  p_reply_to_email :: "string option"
  p_reply_to_name :: "string option"
  p_merge_pdfs :: "bool option"
  p_enable_emails :: "enable_emails option"
  p_create_cast_templates_from_uploads :: "bool option"
  p_duplicate_casts :: "bool option"

definition CreateEtchFilePayload :: "store \<Rightarrow> ref \<Rightarrow> ref \<times> store" where
  \<comment> \<open>Modelled from the spec: the data block owns a copy of the dict handed to it\<close>
  "CreateEtchFilePayload h payloads = new_dict h (dicts h payloads)"

definition CreateEtchPacketPayload ::
  "store \<Rightarrow> create_etch_packet_payload \<Rightarrow> create_etch_packet_payload \<times> store" where
  \<comment> \<open>Modelled from the spec: the payload owns copies of the two lists handed to it. The
      argument holds the keyword arguments: its list fields refer to the caller's lists.\<close>
  "CreateEtchPacketPayload h kw =
     (let (sr, h1) = new_signer_list h (signer_lists h (p_signers kw));
          (fr, h2) = new_file_list h1 (file_lists h1 (p_files kw))
      in (kw\<lparr>p_signers := sr, p_files := fr\<rparr>, h2))"

subsection \<open>The builder: construction\<close>

record create_etch_packet =
  name :: "string option"
  signature_email_subject :: "string option"
  signature_email_body :: "string option"
  signature_page_options :: "(string \<times> json) list option"
  signers :: ref
  files :: ref
  file_payloads :: ref
  is_draft :: bool
  is_test :: bool
  payload :: "create_etch_packet_payload option"
  webhook_url :: "string option"
  reply_to_name :: "string option"
  reply_to_email :: "string option"
  merge_pdfs :: "bool option"
  enable_emails :: "enable_emails option"
  create_cast_templates_from_uploads :: "bool option"
  duplicate_casts :: "bool option"

text \<open>
  The keyword arguments of \<^verbatim>\<open>__init__\<close> other than \<^verbatim>\<open>signers\<close> and
  \<^verbatim>\<open>files\<close>, which the model passes on their own. \<open>default_kwargs\<close> are the defaults
  of the signature.
\<close>

record init_kwargs =
  kw_name :: "string option"
  kw_signature_email_subject :: "string option"
  kw_signature_email_body :: "string option"
  kw_file_payloads :: "ref option"
  kw_signature_page_options :: "(string \<times> json) list option"
  kw_is_draft :: bool
  kw_is_test :: bool
  kw_payload :: "create_etch_packet_payload option"
  kw_webhook_url :: "string option"
  kw_reply_to_name :: "string option"
  kw_reply_to_email :: "string option"
  kw_merge_pdfs :: "bool option"
  kw_enable_emails :: "enable_emails option"
  kw_create_cast_templates_from_uploads :: "bool option"
  kw_duplicate_casts :: "bool option"

definition default_kwargs :: init_kwargs where
  "default_kwargs =
     \<lparr>kw_name = None, kw_signature_email_subject = None, kw_signature_email_body = None,
      kw_file_payloads = None, kw_signature_page_options = None, kw_is_draft = False,
      kw_is_test = True, kw_payload = None, kw_webhook_url = None, kw_reply_to_name = None,
      kw_reply_to_email = None, kw_merge_pdfs = None, kw_enable_emails = None,
      kw_create_cast_templates_from_uploads = None, kw_duplicate_casts = None\<rparr>"

definition msg_missing_name :: string where
  "msg_missing_name =
     ''Missing 2 required positional arguments: '' @ squote ''name'' @ '' and '' @
     squote ''signature_email_subject''"

definition signers_or_new :: "store \<Rightarrow> ref option \<Rightarrow> ref \<times> store" where
  \<comment> \<open>\<^verbatim>\<open>signers or []\<close>: the caller's list when it is given and not empty, else a new one\<close>
  "signers_or_new h r =
     (case r of
        None \<Rightarrow> new_signer_list h []
      | Some a \<Rightarrow> if signer_lists h a \<noteq> [] then (a, h) else new_signer_list h [])"

definition files_or_new :: "store \<Rightarrow> ref option \<Rightarrow> ref \<times> store" where
  \<comment> \<open>\<^verbatim>\<open>files or []\<close>\<close>
  "files_or_new h r =
     (case r of
        None \<Rightarrow> new_file_list h []
      | Some a \<Rightarrow> if file_lists h a \<noteq> [] then (a, h) else new_file_list h [])"

definition file_payloads_or_new :: "store \<Rightarrow> ref option \<Rightarrow> ref \<times> store" where
  \<comment> \<open>\<^verbatim>\<open>file_payloads or {}\<close>\<close>
  "file_payloads_or_new h r =
     (case r of
        None \<Rightarrow> new_dict h []
      | Some a \<Rightarrow> if dicts h a \<noteq> [] then (a, h) else new_dict h [])"

definition init ::
  "store \<Rightarrow> init_kwargs \<Rightarrow> ref option \<Rightarrow> ref option \<Rightarrow> (exn + create_etch_packet) \<times> store"
  where
  \<comment> \<open>\<^verbatim>\<open>CreateEtchPacket.__init__\<close>; a payload object is truthy, so
      \<^verbatim>\<open>not payload\<close> holds for \<^verbatim>\<open>None\<close> only\<close>
  "init h kw signers_arg files_arg =
     (if kw_payload kw = None \<and> \<not> truthy_str (kw_name kw) then (Inl (TypeError msg_missing_name), h)
      else
        let (sr, h1) = signers_or_new h signers_arg;
            (fr, h2) = files_or_new h1 files_arg;
            (dr, h3) = file_payloads_or_new h2 (kw_file_payloads kw)
        in (Inr \<lparr>name = kw_name kw,
                 signature_email_subject = kw_signature_email_subject kw,
                 signature_email_body = kw_signature_email_body kw,
                 signature_page_options = kw_signature_page_options kw,
                 signers = sr,
                 files = fr,
                 file_payloads = dr,
                 is_draft = kw_is_draft kw,
                 is_test = kw_is_test kw,
                 payload = kw_payload kw,
                 webhook_url = kw_webhook_url kw,
                 reply_to_name = kw_reply_to_name kw,
                 reply_to_email = kw_reply_to_email kw,
                 merge_pdfs = kw_merge_pdfs kw,
                 enable_emails = kw_enable_emails kw,
                 create_cast_templates_from_uploads = kw_create_cast_templates_from_uploads kw,
                 duplicate_casts = kw_duplicate_casts kw\<rparr>, h3))"

subsection \<open>The builder: adding signers, attachments and fill payloads\<close>

text \<open>
  What \<^verbatim>\<open>add_signer\<close> is called with: a dict of the keyword fields of an
  \<^verbatim>\<open>EtchSigner\<close> (which \<^verbatim>\<open>EtchSigner(**signer)\<close> turns into the signer with these
  fields), an \<^verbatim>\<open>EtchSigner\<close>, or a value of another type.
\<close>

datatype signer_arg =
    SignerDict etch_signer
  | SignerObj etch_signer
  | SignerOther

definition msg_signer_arg :: string where
  "msg_signer_arg = ''Signer must be either a dict or EtchSigner type''"

definition msg_signer_type :: string where
  "msg_signer_type =
     ''Etch signer `signer_type` must be only '' @ squote ''embedded'' @ '' or '' @
     CHR 0x27 # ''email''"

definition msg_max_empty :: string where
  "msg_max_empty = ''max() arg is an empty sequence''"

definition next_routing_order :: "etch_signer list \<Rightarrow> exn + int" where
  \<comment> \<open>the number computed under \<^verbatim>\<open>if not data.routing_order\<close>\<close>
  "next_routing_order existing =
     (if existing \<noteq> [] then
        (case py_max (map (\<lambda>s. or_zero (routing_order s)) existing) of
           None \<Rightarrow> Inl (ValueError msg_max_empty None)
         | Some m \<Rightarrow> Inr (m + 1))
      else Inr 1)"

definition to_signer :: "signer_arg \<Rightarrow> exn + etch_signer" where
  \<comment> \<open>the \<^verbatim>\<open>isinstance\<close> chain at the head of \<^verbatim>\<open>add_signer\<close>\<close>
  "to_signer signer =
     (case signer of
        SignerDict d \<Rightarrow> Inr d
      | SignerObj s \<Rightarrow> Inr s
      | SignerOther \<Rightarrow> Inl (ValueError msg_signer_arg None))"

definition assign_id :: "store \<Rightarrow> etch_signer \<Rightarrow> etch_signer \<times> store" where
  \<comment> \<open>\<^verbatim>\<open>if not data.id: data.id = create_unique_id("signer")\<close>\<close>
  "assign_id h data =
     (if \<not> truthy_str (s_id data) then
        let (i, h') = create_unique_id ''signer'' h in (data\<lparr>s_id := Some i\<rparr>, h')
      else (data, h))"

definition assign_routing_order :: "etch_signer list \<Rightarrow> etch_signer \<Rightarrow> exn + etch_signer" where
  \<comment> \<open>\<^verbatim>\<open>if not data.routing_order: ... data.routing_order = num\<close>\<close>
  "assign_routing_order existing data =
     (if \<not> truthy_int (routing_order data) then
        (case next_routing_order existing of
           Inl e \<Rightarrow> Inl e
         | Inr num \<Rightarrow> Inr (data\<lparr>routing_order := Some num\<rparr>))
      else Inr data)"

definition add_signer :: "store \<Rightarrow> create_etch_packet \<Rightarrow> signer_arg \<Rightarrow> (exn + unit) \<times> store"
  where
  \<comment> \<open>The assignments to \<^verbatim>\<open>data.id\<close> and \<^verbatim>\<open>data.routing_order\<close> change the value that
      is appended.\<close>
  "add_signer h self signer =
     (case to_signer signer of
        Inl e \<Rightarrow> (Inl e, h)
      | Inr data \<Rightarrow>
          if signer_type data \<notin> set [''embedded'', ''email''] then
            (Inl (ValueError msg_signer_type None), h)
          else
            let (data1, h1) = assign_id h data
            in
              (case assign_routing_order (signer_lists h1 (signers self)) data1 of
                 Inl e \<Rightarrow> (Inl e, h1)
               | Inr data2 \<Rightarrow>
                   (Inr (),
                    h1\<lparr>signer_lists :=
                         (signer_lists h1)
                           (signers self := signer_lists h1 (signers self) @ [data2])\<rparr>)))"

definition msg_no_name :: string where
  \<comment> \<open>the message of the \<^verbatim>\<open>AttributeError\<close> for an \<^verbatim>\<open>io.BytesIO\<close>\<close>
  "msg_no_name = squote ''_io.BytesIO'' @ '' object has no attribute '' @ squote ''name''"

definition msg_name_not_str :: string where
  \<comment> \<open>the message of the \<^verbatim>\<open>TypeError\<close> of \<^verbatim>\<open>guess_type\<close> for an integer\<close>
  "msg_name_not_str = ''expected str, bytes or os.PathLike object, not int''"

definition guess_content_type ::
  "(string \<Rightarrow> string option \<times> string option) \<Rightarrow> attachable \<Rightarrow> exn + attachable" where
  \<comment> \<open>The \<^verbatim>\<open>if\<close> of \<^verbatim>\<open>add_file\<close>. \<open>guess_type\<close> is \<^verbatim>\<open>mimetypes.guess_type\<close> of the
      standard library on strings, a parameter here. \<^verbatim>\<open>file.file.name\<close> is read bare:
      a stream without the attribute raises \<^verbatim>\<open>AttributeError\<close>, and
      \<^verbatim>\<open>guess_type\<close> raises \<^verbatim>\<open>TypeError\<close> for a name that is an integer.\<close>
  "guess_content_type guess_type f =
     (case f of
        DocumentUpload d \<Rightarrow>
          (case d_file d of
             BufferedFile nm ct \<Rightarrow>
               if ct = None then
                 (case nm of
                    None \<Rightarrow> Inl (AttributeError msg_no_name)
                  | Some (FdName n) \<Rightarrow> Inl (TypeError msg_name_not_str)
                  | Some (StrName s) \<Rightarrow>
                      let (content_type, _) = guess_type s
                      in Inr (DocumentUpload (d\<lparr>d_file := BufferedFile nm content_type\<rparr>)))
               else Inr f
           | Base64Upload dat fn \<Rightarrow> Inr f)
      | EtchCastRef i c \<Rightarrow> Inr f)"

definition add_file ::
  "(string \<Rightarrow> string option \<times> string option) \<Rightarrow> store \<Rightarrow> create_etch_packet \<Rightarrow> attachable \<Rightarrow>
     (exn + unit) \<times> store"
  where
  "add_file guess_type h self f =
     (case guess_content_type guess_type f of
        Inl e \<Rightarrow> (Inl e, h)
      | Inr f' \<Rightarrow>
          (Inr (),
           h\<lparr>file_lists := (file_lists h)(files self := file_lists h (files self) @ [f'])\<rparr>))"

definition existing_files :: "store \<Rightarrow> create_etch_packet \<Rightarrow> string list" where
  \<comment> \<open>\<^verbatim>\<open>[f.id for f in self.files if f]\<close>\<close>
  "existing_files h self = map attachable_id (filter truthy_file (file_lists h (files self)))"

definition msg_not_added :: "string \<Rightarrow> string" where
  "msg_not_added fid =
     ''`'' @ fid @ ''` was not added as a file. Please add the file first before adding a fill payload.''"

definition add_file_payloads ::
  "store \<Rightarrow> create_etch_packet \<Rightarrow> string \<Rightarrow> json \<Rightarrow> (exn + unit) \<times> store" where
  "add_file_payloads h self fid fill_payload =
     (if fid \<notin> set (existing_files h self) then (Inl (ValueError (msg_not_added fid) None), h)
      else
        (Inr (),
         h\<lparr>dicts :=
              (dicts h)
                (file_payloads self := dict_set (dicts h (file_payloads self)) fid fill_payload)\<rparr>))"

subsection \<open>The builder: materialization\<close>

definition msg_no_file :: "string \<Rightarrow> string" where
  "msg_no_file key =
     ''`'' @ key @ ''` was not added as a file. Please add that file or remove its fill payload before attempting to create an Etch payload.''"

fun check_file_payloads :: "string list \<Rightarrow> (string \<times> json) list \<Rightarrow> exn option" where
  \<comment> \<open>the loop of \<^verbatim>\<open>get_file_payloads\<close>: the first key that is no attachment id raises\<close>
  "check_file_payloads ids [] = None"
| "check_file_payloads ids ((key, v) # items) =
     (if key \<notin> set ids then Some (ValueError (msg_no_file key) None)
      else check_file_payloads ids items)"

definition get_file_payloads :: "store \<Rightarrow> create_etch_packet \<Rightarrow> exn + ref" where
  "get_file_payloads h self =
     (case check_file_payloads (existing_files h self) (dicts h (file_payloads self)) of
        Some e \<Rightarrow> Inl e
      | None \<Rightarrow> Inr (file_payloads self))"

definition msg_name_none :: string where
  "msg_name_none = ''`name` and `signature_email_subject` cannot be None''"

definition page_options_or_empty :: "(string \<times> json) list option \<Rightarrow> (string \<times> json) list" where
  \<comment> \<open>\<^verbatim>\<open>self.signature_page_options or {}\<close>\<close>
  "page_options_or_empty opts = (case opts of None \<Rightarrow> [] | Some d \<Rightarrow> d)"

definition payload_kwargs :: "create_etch_packet \<Rightarrow> ref \<Rightarrow> create_etch_packet_payload" where
  \<comment> \<open>the keyword arguments of the call of \<^verbatim>\<open>CreateEtchPacketPayload\<close> in
      \<^verbatim>\<open>create_payload\<close>; \<open>data\<close> is the data block built from the fill payloads\<close>
  "payload_kwargs self data =
     \<lparr>p_is_test = is_test self,
      p_is_draft = is_draft self,
      p_name = name self,
      p_signers = signers self,
      p_files = files self,
      p_data = data,
      p_signature_email_subject = signature_email_subject self,
      p_signature_email_body = signature_email_body self,
      p_signature_page_options = page_options_or_empty (signature_page_options self),
      p_webhook_url = webhook_url self,
      p_reply_to_email = reply_to_email self,
      p_reply_to_name = reply_to_name self,
      p_merge_pdfs = merge_pdfs self,
      p_enable_emails = enable_emails self,
      p_create_cast_templates_from_uploads = create_cast_templates_from_uploads self,
      p_duplicate_casts = duplicate_casts self\<rparr>"

definition create_payload ::
  "store \<Rightarrow> create_etch_packet \<Rightarrow> (exn + create_etch_packet_payload) \<times> store" where
  "create_payload h self =
     (case payload self of
        Some p \<Rightarrow> (Inr p, h)
      | None \<Rightarrow>
          if \<not> truthy_str (name self) then (Inl (TypeError msg_name_none), h)
          else
            (case get_file_payloads h self of
               Inl e \<Rightarrow> (Inl e, h)
             | Inr payloads \<Rightarrow>
                 let (data, h1) = CreateEtchFilePayload h payloads;
                     (p, h2) = CreateEtchPacketPayload h1 (payload_kwargs self data)
                 in (Inr p, h2)))"

subsection \<open>The builder: import from a dict\<close>

text \<open>
  The dict handed to \<^verbatim>\<open>create_from_dict\<close>, split by key: the entries whose key is a
  keyword of \<^verbatim>\<open>__init__\<close> other than \<^verbatim>\<open>signers\<close> and \<^verbatim>\<open>files\<close>, bound to their
  parameters (a parameter without an entry has its default); the keys that are no
  parameter of \<^verbatim>\<open>__init__\<close>, in the dict's order; the entry \<^verbatim>\<open>"signers"\<close>, a list of
  dicts of signer fields, and the entry \<^verbatim>\<open>"files"\<close>, a list of dicts of upload fields
  (\<open>None\<close> when the key is missing).
\<close>

record import_mapping =
  m_kwargs :: init_kwargs
  m_other_keys :: "string list"
  m_signers :: "etch_signer list option"
  m_files :: "document_upload list option"

definition msg_unexpected_keyword :: "string \<Rightarrow> string" where
  "msg_unexpected_keyword k =
     ''CreateEtchPacket.__init__() got an unexpected keyword argument '' @ squote k"

definition msg_invalid_payload :: "exn \<Rightarrow> string" where
  "msg_invalid_payload e =
     ''`payload` must be a valid CreateEtchPacket instance or dict. '' @ str_exn e"

definition cls_from_mapping ::
  "store \<Rightarrow> import_mapping \<Rightarrow> (exn + create_etch_packet) \<times> store" where
  \<comment> \<open>\<^verbatim>\<open>cls(**{k: v for k, v in payload.items() if k not in ["signers", "files"]})\<close>:
      a keyword that is no parameter is a \<^verbatim>\<open>TypeError\<close> of the call itself\<close>
  "cls_from_mapping h m =
     (case m_other_keys m of
        k # ks \<Rightarrow> (Inl (TypeError (msg_unexpected_keyword k)), h)
      | [] \<Rightarrow> init h (m_kwargs m) None None)"

fun add_signers ::
  "store \<Rightarrow> create_etch_packet \<Rightarrow> signer_arg list \<Rightarrow> (exn + unit) \<times> store" where
  \<comment> \<open>\<^verbatim>\<open>add_signer\<close> called on each element in turn; an exception ends the loop\<close>
  "add_signers h self [] = (Inr (), h)"
| "add_signers h self (x # xs) =
     (case add_signer h self x of
        (Inl e, h1) \<Rightarrow> (Inl e, h1)
      | (Inr u, h1) \<Rightarrow> add_signers h1 self xs)"

fun add_files ::
  "(string \<Rightarrow> string option \<times> string option) \<Rightarrow> store \<Rightarrow> create_etch_packet \<Rightarrow>
     attachable list \<Rightarrow> (exn + unit) \<times> store" where
  "add_files guess_type h self [] = (Inr (), h)"
| "add_files guess_type h self (f # fs) =
     (case add_file guess_type h self f of
        (Inl e, h1) \<Rightarrow> (Inl e, h1)
      | (Inr u, h1) \<Rightarrow> add_files guess_type h1 self fs)"

definition create_from_dict ::
  "(string \<Rightarrow> string option \<times> string option) \<Rightarrow> store \<Rightarrow> import_mapping \<Rightarrow>
     (exn + create_etch_packet) \<times> store" where
  "create_from_dict guess_type h m =
     (case cls_from_mapping h m of
        (Inl e, h0) \<Rightarrow>
          (case e of
             TypeError msg \<Rightarrow> (Inl (ValueError (msg_invalid_payload e) (Some e)), h0)
           | ValueError msg c \<Rightarrow> (Inl e, h0)
           | AttributeError msg \<Rightarrow> (Inl e, h0))
      | (Inr mutation, h0) \<Rightarrow>
          (case (case m_signers m of
                   None \<Rightarrow> (Inr (), h0)
                 | Some ss \<Rightarrow> add_signers h0 mutation (map SignerObj ss)) of
             (Inl e, h1) \<Rightarrow> (Inl e, h1)
           | (Inr u, h1) \<Rightarrow>
               (case (case m_files m of
                        None \<Rightarrow> (Inr (), h1)
                      | Some fs \<Rightarrow> add_files guess_type h1 mutation (map DocumentUpload fs)) of
                  (Inl e, h2) \<Rightarrow> (Inl e, h2)
                | (Inr u, h2) \<Rightarrow> (Inr mutation, h2))))"

subsection \<open>Callers\<close>

text \<open>
  A caller of the builder mutates it through its three methods. \<open>mutate_all\<close> runs a
  sequence of such calls on one builder, going on after a call that raised (as a caller
  that catches the exception does), and returns the store it leaves.
\<close>

datatype mutation =
    AddSigner signer_arg
  | AddFile attachable
  | AddFilePayloads string json

fun mutate ::
  "(string \<Rightarrow> string option \<times> string option) \<Rightarrow> store \<Rightarrow> create_etch_packet \<Rightarrow> mutation \<Rightarrow>
     (exn + unit) \<times> store" where
  "mutate guess_type h self (AddSigner x) = add_signer h self x"
| "mutate guess_type h self (AddFile f) = add_file guess_type h self f"
| "mutate guess_type h self (AddFilePayloads i d) = add_file_payloads h self i d"

fun mutate_all ::
  "(string \<Rightarrow> string option \<times> string option) \<Rightarrow> store \<Rightarrow> create_etch_packet \<Rightarrow>
     mutation list \<Rightarrow> store" where
  "mutate_all guess_type h self [] = h"
| "mutate_all guess_type h self (m # ms) =
     mutate_all guess_type (snd (mutate guess_type h self m)) self ms"

text \<open>
  What a payload says, read out of the store: its own fields with the contents of its
  two lists and of its data block. Two payload objects are equal when they say the same.
\<close>

record payload_view =
  v_fields :: create_etch_packet_payload
  v_signers :: "etch_signer list"
  v_files :: "attachable list"
  v_data :: "(string \<times> json) list"

definition view :: "store \<Rightarrow> create_etch_packet_payload \<Rightarrow> payload_view" where
  "view h p =
     \<lparr>v_fields = p\<lparr>p_signers := 0, p_files := 0, p_data := 0\<rparr>,
      v_signers = signer_lists h (p_signers p),
      v_files = file_lists h (p_files p),
      v_data = dicts h (p_data p)\<rparr>"

text \<open>
  The builder's cells are allocated in a store: its two lists and its dict are among the
  cells handed out.
\<close>

definition allocated :: "store \<Rightarrow> create_etch_packet \<Rightarrow> bool" where
  "allocated h self =
     (signers self < fresh h \<and> files self < fresh h \<and> file_payloads self < fresh h)"

subsection \<open>The numbers and values the proofs speak of\<close>

definition routing_number :: "etch_signer list \<Rightarrow> int" where
  \<comment> \<open>the default routing order of a signer added to a list: one more than the largest
      order in it, with an unset order counting as 0\<close>
  "routing_number xs =
     (if xs = [] then 1 else Max (set (map (\<lambda>s. or_zero (routing_order s)) xs)) + 1)"

definition appended :: "store \<Rightarrow> create_etch_packet \<Rightarrow> etch_signer \<Rightarrow> etch_signer" where
  \<comment> \<open>the signer that a successful \<^verbatim>\<open>add_signer\<close> puts at the end of the list\<close>
  "appended h self d =
     (let d1 = fst (assign_id h d)
      in if truthy_int (routing_order d) then d1
         else d1\<lparr>routing_order := Some (routing_number (signer_lists h (signers self)))\<rparr>)"

definition same_signer :: "etch_signer \<Rightarrow> etch_signer \<Rightarrow> bool" where
  \<comment> \<open>\<open>d'\<close> is \<open>d\<close> but for the id and the routing order, which \<^verbatim>\<open>add_signer\<close> may fill in\<close>
  "same_signer d' d = (d'\<lparr>s_id := s_id d, routing_order := routing_order d\<rparr> = d)"

fun listed :: "'a list option \<Rightarrow> 'a list" where
  \<comment> \<open>the elements of an entry of the imported dict; none when the key is missing\<close>
  "listed None = []"
| "listed (Some xs) = xs"

fun content_type :: "attachable \<Rightarrow> string option" where
  \<comment> \<open>the \<^verbatim>\<open>content_type\<close> of the stream of an attachment, if it has a stream and one is set\<close>
  "content_type (DocumentUpload d) =
     (case d_file d of BufferedFile nm ct \<Rightarrow> ct | Base64Upload dat fn \<Rightarrow> None)"
| "content_type (EtchCastRef i c) = None"

definition result_view ::
  "store \<Rightarrow> exn + create_etch_packet_payload \<Rightarrow> exn + payload_view" where
  \<comment> \<open>what a call of \<^verbatim>\<open>create_payload\<close> gave: the exception, or what the payload says\<close>
  "result_view h r = (case r of Inl e \<Rightarrow> Inl e | Inr p \<Rightarrow> Inr (view h p))"

definition id_from_generator :: "string option \<Rightarrow> bool" where
  \<comment> \<open>an id that the identifier generator made for a signer: it starts with \<^verbatim>\<open>signer\<close>\<close>
  "id_from_generator i = (case i of None \<Rightarrow> False | Some v \<Rightarrow> take 6 v = ''signer'')"

fun signers_added :: "etch_signer list \<Rightarrow> etch_signer list \<Rightarrow> etch_signer list \<Rightarrow> bool" where
  \<comment> \<open>\<open>signers_added before ds' ds\<close>: the signers \<open>ds'\<close> are what adding the signers \<open>ds\<close>
      one by one to the list \<open>before\<close> stores. Each is the signer given, with its own id
      when it has one and a generated id otherwise, and with its own routing order when
      that is set and not 0, and otherwise the default for the list it is added to.\<close>
  "signers_added before [] [] = True"
| "signers_added before (d' # ds') (d # ds) =
     (same_signer d' d \<and>
      (if truthy_str (s_id d) then s_id d' = s_id d else id_from_generator (s_id d')) \<and>
      routing_order d' =
        (if truthy_int (routing_order d) then routing_order d
         else Some (routing_number before)) \<and>
      signers_added (before @ [d']) ds' ds)"
| "signers_added before ds' ds = False"

definition inferred ::
  "(string \<Rightarrow> string option \<times> string option) \<Rightarrow> attachable \<Rightarrow> attachable \<Rightarrow> bool" where
  \<comment> \<open>\<open>f'\<close> is what \<^verbatim>\<open>add_file\<close> stores for \<open>f\<close>, a call that does not raise\<close>
  "inferred g f' f = (guess_content_type g f = Inr f')"

definition wrapped :: "exn \<Rightarrow> exn" where
  \<comment> \<open>the \<^verbatim>\<open>ValueError\<close> that \<^verbatim>\<open>create_from_dict\<close> raises from the exception \<open>e\<close>\<close>
  "wrapped e = ValueError (msg_invalid_payload e) (Some e)"

definition built_from :: "init_kwargs \<Rightarrow> create_etch_packet \<Rightarrow> bool" where
  \<comment> \<open>the builder has the packet-level fields that the keyword arguments give\<close>
  "built_from kw self =
     (name self = kw_name kw \<and>
      signature_email_subject self = kw_signature_email_subject kw \<and>
      signature_email_body self = kw_signature_email_body kw \<and>
      signature_page_options self = kw_signature_page_options kw \<and>
      is_draft self = kw_is_draft kw \<and>
      is_test self = kw_is_test kw \<and>
      payload self = kw_payload kw \<and>
      webhook_url self = kw_webhook_url kw \<and>
      reply_to_name self = kw_reply_to_name kw \<and>
      reply_to_email self = kw_reply_to_email kw \<and>
      merge_pdfs self = kw_merge_pdfs kw \<and>
      enable_emails self = kw_enable_emails kw \<and>
      create_cast_templates_from_uploads self = kw_create_cast_templates_from_uploads kw \<and>
      duplicate_casts self = kw_duplicate_casts kw)"

subsection \<open>Example states\<close>

definition empty_store :: store where
  "empty_store =
     \<lparr>signer_lists = (\<lambda>r. []), file_lists = (\<lambda>r. []), dicts = (\<lambda>r. []), fresh = 0,
      entropy = (\<lambda>n. replicate (Suc n) CHR ''x''), drawn = 0\<rparr>"

definition store3 :: store where
  \<comment> \<open>three cells handed out: 0, 1 and 2, all empty\<close>
  "store3 = empty_store\<lparr>fresh := 3\<rparr>"

definition plain_builder :: create_etch_packet where
  \<comment> \<open>a builder as \<^verbatim>\<open>CreateEtchPacket(name="Etch packet")\<close> leaves it, with the cells
      0, 1 and 2\<close>
  "plain_builder =
     \<lparr>name = Some ''Etch packet'', signature_email_subject = None,
      signature_email_body = None, signature_page_options = None, signers = 0, files = 1,
      file_payloads = 2, is_draft = False, is_test = True, payload = None,
      webhook_url = None, reply_to_name = None, reply_to_email = None, merge_pdfs = None,
      enable_emails = None, create_cast_templates_from_uploads = None,
      duplicate_casts = None\<rparr>"

definition signer_jackie :: etch_signer where
  "signer_jackie =
     \<lparr>s_name = ''Jackie'', s_email = ''jackie@example.com'', s_id = None, routing_order = None,
      signer_type = ''embedded'',
      s_fields = [\<lparr>file_id = ''myNewFile'', field_id = ''sign1''\<rparr>]\<rparr>"

definition three_signers :: "signer_arg list" where
  "three_signers =
     [SignerObj signer_jackie,
      SignerDict (signer_jackie\<lparr>s_name := ''Sam'', signer_type := ''email''\<rparr>),
      SignerObj (signer_jackie\<lparr>s_name := ''Kim''\<rparr>)]"

definition supplied_payload :: create_etch_packet_payload where
  \<comment> \<open>a complete payload with cells 3, 4 and 5 of its own\<close>
  "supplied_payload =
     \<lparr>p_is_test = True, p_is_draft = False, p_name = Some ''Supplied'', p_signers = 3,
      p_files = 4, p_data = 5, p_signature_email_subject = None,
      p_signature_email_body = None, p_signature_page_options = [], p_webhook_url = None,
      p_reply_to_email = None, p_reply_to_name = None, p_merge_pdfs = None,
      p_enable_emails = None, p_create_cast_templates_from_uploads = None,
      p_duplicate_casts = None\<rparr>"

definition supplied_builder :: create_etch_packet where
  \<comment> \<open>a builder that was handed \<open>supplied_payload\<close>\<close>
  "supplied_builder = plain_builder\<lparr>payload := Some supplied_payload\<rparr>"

definition ghost_store :: store where
  \<comment> \<open>the fill-payload dict in cell 2 names an attachment that no list holds\<close>
  "ghost_store = empty_store\<lparr>dicts := (\<lambda>r. [])(2 := [(''ghost'', JNull)]), fresh := 6\<rparr>"

definition guess_pdf :: "string \<Rightarrow> string option \<times> string option" where
  \<comment> \<open>a \<^verbatim>\<open>guess_type\<close> that knows one file name\<close>
  "guess_pdf nm =
     (if nm = ''report.pdf'' then (Some ''application/pdf'', None) else (None, None))"

definition report_upload :: "string \<Rightarrow> document_upload" where
  \<comment> \<open>an upload whose file is a stream of the given name, without a content type\<close>
  "report_upload nm =
     \<lparr>d_id = ''myNewFile'', title = ''Please sign this important form'',
      d_file = BufferedFile (Some (StrName nm)) None,
      d_fields =
        [\<lparr>sf_id = ''sign1'', sf_type = ''signature'', page_num = 0,
          rect = (183, 100, 250, 50)\<rparr>]\<rparr>"

definition file_a :: attachable where
  "file_a = EtchCastRef ''a'' ''cast1''"

definition store_a :: store where
  \<comment> \<open>six cells handed out; the attachment list in cell 1 holds \<open>file_a\<close>\<close>
  "store_a = empty_store\<lparr>file_lists := (\<lambda>r. [])(1 := [file_a]), fresh := 6\<rparr>"

definition store_a_filled :: store where
  "store_a_filled = snd (add_file_payloads store_a supplied_builder ''a'' (JStr ''x''))"

definition built_payload :: create_etch_packet_payload where
  \<comment> \<open>the payload that \<^verbatim>\<open>create_payload\<close> builds for \<open>plain_builder\<close> in \<open>store_a\<close>\<close>
  "built_payload = (payload_kwargs plain_builder 6)\<lparr>p_signers := 7, p_files := 8\<rparr>"

definition built_store :: store where
  \<comment> \<open>and the store it leaves\<close>
  "built_store =
     store_a\<lparr>dicts := (dicts store_a)(6 := []),
       signer_lists := (signer_lists store_a)(7 := []),
       file_lists := (file_lists store_a)(8 := [file_a]), fresh := 9\<rparr>"


definition sms_mapping :: import_mapping where
  \<comment> \<open>\<^verbatim>\<open>{"name": "Etch packet", "signers": [{..., "signer_type": "sms"}]}\<close>\<close>
  "sms_mapping =
     \<lparr>m_kwargs = default_kwargs\<lparr>kw_name := Some ''Etch packet''\<rparr>, m_other_keys = [],
      m_signers = Some [signer_jackie\<lparr>signer_type := ''sms''\<rparr>], m_files = None\<rparr>"

definition good_mapping :: import_mapping where
  "good_mapping =
     \<lparr>m_kwargs = default_kwargs\<lparr>kw_name := Some ''Etch packet''\<rparr>, m_other_keys = [],
      m_signers = Some [signer_jackie], m_files = Some [report_upload ''report.pdf'']\<rparr>"

definition nameless_mapping :: import_mapping where
  "nameless_mapping =
     \<lparr>m_kwargs = default_kwargs, m_other_keys = [], m_signers = Some [signer_jackie],
      m_files = None\<rparr>"

definition bytes_upload :: document_upload where
  \<comment> \<open>an upload whose file is a stream in memory: no name, no content type\<close>
  "bytes_upload = (report_upload ''report.pdf'')\<lparr>d_file := BufferedFile None None\<rparr>"

definition fd_upload :: document_upload where
  \<comment> \<open>an upload whose file was opened on the file descriptor 3\<close>
  "fd_upload = (report_upload ''report.pdf'')\<lparr>d_file := BufferedFile (Some (FdName 3)) None\<rparr>"

definition signer_one :: etch_signer where
  "signer_one = signer_jackie\<lparr>s_id := Some ''signer-one'', routing_order := Some 1\<rparr>"

definition shared_store :: store where
  \<comment> \<open>the lists of \<open>supplied_payload\<close>, in the cells 3 and 4, hold a signer and an
      attachment\<close>
  "shared_store =
     empty_store\<lparr>signer_lists := (\<lambda>r. [])(3 := [signer_one]),
       file_lists := (\<lambda>r. [])(4 := [file_a]), fresh := 6\<rparr>"


definition sharing_builder :: create_etch_packet where
  \<comment> \<open>the builder that the constructor returns when it is handed \<open>supplied_payload\<close>
      together with that payload's own two lists\<close>
  "sharing_builder =
     plain_builder\<lparr>name := None, signers := 3, files := 4, file_payloads := 6,
       payload := Some supplied_payload\<rparr>"


definition nameless_file_mapping :: import_mapping where
  \<comment> \<open>a dict whose listed upload has a stream without a name\<close>
  "nameless_file_mapping = good_mapping\<lparr>m_files := Some [report_upload ''a.pdf'', bytes_upload]\<rparr>"

section \<open>Properties\<close>

subsection \<open>What a call of \<^verbatim>\<open>add_signer\<close> does\<close>

lemma or_zero_simps: "or_zero None = 0" "or_zero (Some n) = n"
  by (simp_all add: or_zero_def truthy_int_def)

lemma py_max_Max: "xs \<noteq> [] \<Longrightarrow> py_max xs = Some (Max (set xs))"
  by (cases xs) (simp_all add: Max.set_eq_fold[symmetric])

lemma next_routing_order_eq: "next_routing_order xs = Inr (routing_number xs)"
  by (simp add: next_routing_order_def routing_number_def py_max_Max)

lemma assign_id_fields:
  "routing_order (fst (assign_id h d)) = routing_order d"
  "signer_type (fst (assign_id h d)) = signer_type d"
  "(fst (assign_id h d))\<lparr>s_id := i\<rparr> = d\<lparr>s_id := i\<rparr>"
  by (simp_all add: assign_id_def create_unique_id_def)

lemma assign_id_store:
  "signer_lists (snd (assign_id h d)) = signer_lists h"
  "file_lists (snd (assign_id h d)) = file_lists h"
  "dicts (snd (assign_id h d)) = dicts h"
  "fresh (snd (assign_id h d)) = fresh h"
  by (simp_all add: assign_id_def create_unique_id_def)

lemma add_signer_valid:
  assumes "signer_type d = ''embedded'' \<or> signer_type d = ''email''"
    and "x = SignerObj d \<or> x = SignerDict d"
  shows "add_signer h self x =
     (Inr (),
      (snd (assign_id h d))\<lparr>signer_lists :=
         (signer_lists h)(signers self := signer_lists h (signers self) @ [appended h self d])\<rparr>)"
proof -
  obtain d1 h1 where a: "assign_id h d = (d1, h1)" by (cases "assign_id h d")
  have f: "routing_order d1 = routing_order d" "signer_lists h1 = signer_lists h"
    using assign_id_fields(1)[of h d] assign_id_store(1)[of h d] a by simp_all
  have t: "to_signer x = Inr d" using assms(2) by (auto simp: to_signer_def)
  show ?thesis using assms(1)
    by (auto simp: add_signer_def t a f assign_routing_order_def next_routing_order_eq appended_def)
qed

lemma add_signer_invalid:
  assumes "signer_type d \<noteq> ''embedded''" and "signer_type d \<noteq> ''email''"
    and "x = SignerObj d \<or> x = SignerDict d"
  shows "add_signer h self x = (Inl (ValueError msg_signer_type None), h)"
  using assms by (auto simp: add_signer_def to_signer_def)

lemma add_signer_returns:
  assumes "add_signer h self x = (Inr (), h1)"
  obtains d where "x = SignerObj d \<or> x = SignerDict d"
    and "signer_type d = ''embedded'' \<or> signer_type d = ''email''"
  using assms
  by (cases x) (auto simp: add_signer_def to_signer_def split: if_splits)

lemma appended_same_signer: "same_signer (appended h self d) d"
proof -
  have "(fst (assign_id h d))\<lparr>s_id := s_id d\<rparr> = d"
    by (simp add: assign_id_fields)
  then show ?thesis
    by (auto simp: same_signer_def appended_def Let_def assign_id_def create_unique_id_def)
qed

subsection \<open>Signer kinds\<close>

text \<open>
  Claim C4. For every store, every builder and every signer, given as an
  \<^verbatim>\<open>EtchSigner\<close> or as a dict of its fields: when the signer's \<open>signer_type\<close> is neither
  \<^verbatim>\<open>embedded\<close> nor \<^verbatim>\<open>email\<close>, \<^verbatim>\<open>add_signer\<close> raises a \<^verbatim>\<open>ValueError\<close> and leaves the
  whole store, hence the builder's signer list, as it was; when it is one of the two, the
  call returns without raising.
\<close>

theorem add_signer_checks_signer_type:
  "(signer_type d \<notin> {''embedded'', ''email''} \<longrightarrow>
      add_signer h self (SignerObj d) = (Inl (ValueError msg_signer_type None), h) \<and>
      add_signer h self (SignerDict d) = (Inl (ValueError msg_signer_type None), h)) \<and>
   (signer_type d \<in> {''embedded'', ''email''} \<longrightarrow>
      (\<exists>h'. add_signer h self (SignerObj d) = (Inr (), h')) \<and>
      (\<exists>h'. add_signer h self (SignerDict d) = (Inr (), h')))"
  using add_signer_valid[of d _ h self] add_signer_invalid[of d _ h self]
  by (metis insert_iff empty_iff)

theorem add_signer_checks_signer_type_witness:
  "add_signer store3 plain_builder (SignerObj (signer_jackie\<lparr>signer_type := ''sms''\<rparr>)) =
     (Inl (ValueError msg_signer_type None), store3) \<and>
   signer_lists store3 (signers plain_builder) = [] \<and>
   (\<exists>h'. add_signer store3 plain_builder (SignerObj signer_jackie) = (Inr (), h'))"
  using add_signer_checks_signer_type[of "signer_jackie\<lparr>signer_type := ''sms''\<rparr>" store3 plain_builder]
    add_signer_checks_signer_type[of signer_jackie store3 plain_builder]
  by (simp add: signer_jackie_def store3_def empty_store_def)

subsection \<open>Routing orders\<close>

text \<open>
  Claim C3, as stated: \<^verbatim>\<open>add_signer\<close> keeps every routing order the caller set, 0
  included. It does not keep 0: \<^verbatim>\<open>not data.routing_order\<close> holds for 0 as it does for
  \<^verbatim>\<open>None\<close>, and the signer added to an empty list with routing order 0 is stored with
  routing order 1.
\<close>

theorem zero_routing_order_overwritten:
  "routing_order (signer_jackie\<lparr>routing_order := Some 0\<rparr>) = Some 0 \<and>
   map routing_order
     (signer_lists
        (snd (add_signer store3 plain_builder
                (SignerObj (signer_jackie\<lparr>routing_order := Some 0\<rparr>))))
        (signers plain_builder)) = [Some 1]"
  by (simp add: add_signer_def to_signer_def signer_jackie_def store3_def empty_store_def
      plain_builder_def assign_id_def create_unique_id_def assign_routing_order_def
      next_routing_order_def truthy_int_def truthy_str_def)

text \<open>
  Claim C3, amended. For every signer passed to \<^verbatim>\<open>add_signer\<close> with a routing order
  set and a signer type that \<^verbatim>\<open>add_signer\<close> accepts, the call appends one signer to
  the builder's list, which is the signer passed but for the id and the routing order.
  When the routing order passed is not 0, the signer appended carries it unchanged. When
  it is 0, it is treated as unset and replaced by the default: 1 when the list was empty,
  and else one more than the largest routing order in the list, an unset one counting
  as 0.
\<close>

theorem routing_order_kept_unless_zero:
  assumes "routing_order d = Some r"
    and "signer_type d \<in> {''embedded'', ''email''}"
    and "x = SignerObj d \<or> x = SignerDict d"
  shows "\<exists>h' d'. add_signer h self x = (Inr (), h') \<and>
           signer_lists h' (signers self) = signer_lists h (signers self) @ [d'] \<and>
           same_signer d' d \<and>
           routing_order d' =
             (if r \<noteq> 0 then Some r
              else if signer_lists h (signers self) = [] then Some 1
              else Some (Max (set (map (\<lambda>s. or_zero (routing_order s))
                                     (signer_lists h (signers self)))) + 1))"
proof -
  have "add_signer h self x =
     (Inr (),
      (snd (assign_id h d))\<lparr>signer_lists :=
         (signer_lists h)(signers self := signer_lists h (signers self) @ [appended h self d])\<rparr>)"
    using add_signer_valid[of d x h self] assms(2,3) by auto
  moreover have "routing_order (appended h self d) =
             (if r \<noteq> 0 then Some r
              else if signer_lists h (signers self) = [] then Some 1
              else Some (Max (set (map (\<lambda>s. or_zero (routing_order s))
                                     (signer_lists h (signers self)))) + 1))"
    using assms(1)
    by (simp add: appended_def truthy_int_def assign_id_fields routing_number_def)
  ultimately show ?thesis using appended_same_signer[of h self d] by simp
qed

theorem routing_order_kept_unless_zero_witness:
  "(\<exists>h' d'. add_signer store3 plain_builder (SignerObj (signer_jackie\<lparr>routing_order := Some 7\<rparr>)) =
        (Inr (), h') \<and>
      signer_lists h' (signers plain_builder) = [d'] \<and> routing_order d' = Some 7) \<and>
   (\<exists>h' d'. add_signer store3 plain_builder (SignerObj (signer_jackie\<lparr>routing_order := Some 0\<rparr>)) =
        (Inr (), h') \<and>
      signer_lists h' (signers plain_builder) = [d'] \<and> routing_order d' = Some 1) \<and>
   (\<exists>h' d'. add_signer shared_store sharing_builder
                (SignerObj (signer_jackie\<lparr>routing_order := Some 0\<rparr>)) = (Inr (), h') \<and>
      signer_lists h' (signers sharing_builder) = [signer_one, d'] \<and> routing_order d' = Some 2)"
proof -
  have e: "signer_lists store3 (signers plain_builder) = []"
    by (simp add: store3_def empty_store_def)
  have s: "signer_lists shared_store (signers sharing_builder) = [signer_one]"
    by (simp add: shared_store_def sharing_builder_def)
  have 1: "\<exists>h' d'. add_signer store3 plain_builder (SignerObj (signer_jackie\<lparr>routing_order := Some 7\<rparr>)) =
        (Inr (), h') \<and>
      signer_lists h' (signers plain_builder) = [d'] \<and> routing_order d' = Some 7"
    using routing_order_kept_unless_zero
      [of "signer_jackie\<lparr>routing_order := Some 7\<rparr>" 7
          "SignerObj (signer_jackie\<lparr>routing_order := Some 7\<rparr>)" store3 plain_builder] e
    by (auto simp: signer_jackie_def)
  have 2: "\<exists>h' d'. add_signer store3 plain_builder (SignerObj (signer_jackie\<lparr>routing_order := Some 0\<rparr>)) =
        (Inr (), h') \<and>
      signer_lists h' (signers plain_builder) = [d'] \<and> routing_order d' = Some 1"
    using routing_order_kept_unless_zero
      [of "signer_jackie\<lparr>routing_order := Some 0\<rparr>" 0
          "SignerObj (signer_jackie\<lparr>routing_order := Some 0\<rparr>)" store3 plain_builder] e
    by (auto simp: signer_jackie_def)
  have 3: "\<exists>h' d'. add_signer shared_store sharing_builder
                (SignerObj (signer_jackie\<lparr>routing_order := Some 0\<rparr>)) = (Inr (), h') \<and>
      signer_lists h' (signers sharing_builder) = [signer_one, d'] \<and> routing_order d' = Some 2"
    using routing_order_kept_unless_zero
      [of "signer_jackie\<lparr>routing_order := Some 0\<rparr>" 0
          "SignerObj (signer_jackie\<lparr>routing_order := Some 0\<rparr>)" shared_store sharing_builder] s
    by (auto simp: signer_jackie_def signer_one_def or_zero_simps)
  show ?thesis using 1 2 3 by blast
qed

lemma Max_upto: "0 < k \<Longrightarrow> Max (int ` {1..<Suc k}) = int k"
  by (rule Max_eqI) auto

lemma routing_number_upto:
  assumes "map routing_order xs = map (\<lambda>i. Some (int i)) [1..<Suc k]"
  shows "routing_number xs = int k + 1"
proof (cases k)
  case 0
  then have "xs = []" using assms by simp
  then show ?thesis using 0 by (simp add: routing_number_def)
next
  case (Suc j)
  then have ne: "xs \<noteq> []" using assms by auto
  have "map (\<lambda>s. or_zero (routing_order s)) xs = map or_zero (map routing_order xs)"
    by simp
  also have "\<dots> = map int [1..<Suc k]"
    by (simp only: assms map_map comp_def or_zero_simps)
  finally have "set (map (\<lambda>s. or_zero (routing_order s)) xs) = int ` {1..<Suc k}"
    by (simp only: set_map set_upt)
  then show ?thesis using ne Suc Max_upto[of k] by (simp add: routing_number_def)
qed

lemma add_signers_routing:
  assumes "add_signers h self xs = (Inr (), h1)"
    and "\<forall>x\<in>set xs. \<forall>d. x = SignerObj d \<or> x = SignerDict d \<longrightarrow> routing_order d = None"
    and "map routing_order (signer_lists h (signers self)) = map (\<lambda>i. Some (int i)) [1..<Suc k]"
  shows "map routing_order (signer_lists h1 (signers self)) =
           map (\<lambda>i. Some (int i)) [1..<Suc (k + length xs)]"
  using assms
proof (induction xs arbitrary: h k)
  case Nil
  then show ?case by simp
next
  case (Cons x xs)
  obtain h' where step: "add_signer h self x = (Inr (), h')"
    and rest: "add_signers h' self xs = (Inr (), h1)"
    using Cons.prems(1) by (auto split: prod.splits sum.splits)
  obtain d where d: "x = SignerObj d \<or> x = SignerDict d"
    and ty: "signer_type d = ''embedded'' \<or> signer_type d = ''email''"
    using add_signer_returns[OF step] by blast
  have none: "routing_order d = None" using Cons.prems(2) d by auto
  have h': "signer_lists h' (signers self) = signer_lists h (signers self) @ [appended h self d]"
    using add_signer_valid[OF ty d, of h self] step by auto
  have "routing_order (appended h self d) = Some (int k + 1)"
    using none routing_number_upto[OF Cons.prems(3)]
    by (simp add: appended_def truthy_int_def)
  then have "map routing_order (signer_lists h' (signers self)) =
      map (\<lambda>i. Some (int i)) [1..<Suc (Suc k)]"
    using Cons.prems(3) h' by simp
  from Cons.IH[OF rest _ this] Cons.prems(2) show ?case by simp
qed

lemma add_signers_succeeds:
  assumes "\<forall>x\<in>set xs. \<exists>d. (x = SignerObj d \<or> x = SignerDict d) \<and>
      (signer_type d = ''embedded'' \<or> signer_type d = ''email'')"
  shows "\<exists>h1. add_signers h self xs = (Inr (), h1)"
  using assms
proof (induction xs arbitrary: h)
  case Nil
  then show ?case by simp
next
  case (Cons x xs)
  then obtain d where "x = SignerObj d \<or> x = SignerDict d"
    and "signer_type d = ''embedded'' \<or> signer_type d = ''email''"
    by auto
  from add_signer_valid[OF this(2,1), of h self] Cons show ?case by simp
qed

lemma init_succeeds:
  "kw_payload kw \<noteq> None \<or> truthy_str (kw_name kw) \<Longrightarrow>
     \<exists>self h'. init h kw ss fs = (Inr self, h')"
  by (auto simp: init_def split: prod.splits)

lemma init_raises:
  "init h kw ss fs = (Inl e, h0) \<Longrightarrow> e = TypeError msg_missing_name \<and> h0 = h"
  by (auto simp: init_def split: if_splits prod.splits)

lemma init_returns:
  assumes "init h kw ss fs = (Inr self, h0)"
  shows "signers self = fst (signers_or_new h ss)"
    and "signer_lists h0 = signer_lists (snd (signers_or_new h ss))"
  using assms
  by (auto simp: init_def files_or_new_def file_payloads_or_new_def new_file_list_def new_dict_def
      split: if_splits prod.splits option.splits)

lemma init_without_signers:
  assumes "init h kw ss fs = (Inr self, h0)"
    and "case ss of None \<Rightarrow> True | Some a \<Rightarrow> signer_lists h a = []"
  shows "signer_lists h0 (signers self) = []"
  using init_returns[OF assms(1)] assms(2)
  by (auto simp: signers_or_new_def new_signer_list_def split: option.splits)

lemma init_fresh_lists:
  assumes "init h kw None None = (Inr self, h0)"
  shows "signer_lists h0 (signers self) = []" and "file_lists h0 (files self) = []"
  using assms
  by (auto simp: init_def signers_or_new_def files_or_new_def file_payloads_or_new_def
      new_signer_list_def new_file_list_def new_dict_def
      split: if_splits prod.splits option.splits)

text \<open>
  Claim C2. Take a builder as the constructor returns it when it is given no signers (no
  \<^verbatim>\<open>signers\<close> argument, or an empty list), and a sequence of calls of \<^verbatim>\<open>add_signer\<close>
  on it that all return, none of them with a signer that carries a routing order. Then the
  routing orders of the signers in the builder's list are 1, 2, ..., n, in the order of the
  calls.
\<close>

theorem default_routing_orders_count_up:
  assumes "init h kw ss fs = (Inr self, h0)"
    and "case ss of None \<Rightarrow> True | Some a \<Rightarrow> signer_lists h a = []"
    and "add_signers h0 self xs = (Inr (), h1)"
    and "\<forall>x\<in>set xs. \<forall>d. x = SignerObj d \<or> x = SignerDict d \<longrightarrow> routing_order d = None"
  shows "map routing_order (signer_lists h1 (signers self)) =
           map (\<lambda>i. Some (int i)) [1..<Suc (length xs)]"
  using add_signers_routing[OF assms(3,4), of 0] init_without_signers[OF assms(1,2)]
  by simp

theorem default_routing_orders_count_up_witness:
  "\<exists>self h0 h1.
     init store3 (default_kwargs\<lparr>kw_name := Some ''Etch packet''\<rparr>) None None = (Inr self, h0) \<and>
     add_signers h0 self three_signers = (Inr (), h1) \<and>
     map routing_order (signer_lists h1 (signers self)) = [Some 1, Some 2, Some 3]"
proof -
  obtain self h0 where i:
    "init store3 (default_kwargs\<lparr>kw_name := Some ''Etch packet''\<rparr>) None None = (Inr self, h0)"
    using init_succeeds[of "default_kwargs\<lparr>kw_name := Some ''Etch packet''\<rparr>" store3 None None]
    by (auto simp: truthy_str_def)
  obtain h1 where a: "add_signers h0 self three_signers = (Inr (), h1)"
    using add_signers_succeeds[of three_signers h0 self]
    by (auto simp: three_signers_def signer_jackie_def)
  have "map routing_order (signer_lists h1 (signers self)) =
      map (\<lambda>i. Some (int i)) [1..<Suc (length three_signers)]"
    using default_routing_orders_count_up[OF i _ a]
    by (simp add: three_signers_def signer_jackie_def)
  moreover have "[1..<Suc (length three_signers)] = [1, 2, 3]"
    by (simp add: three_signers_def upt_rec)
  ultimately show ?thesis using i a by auto
qed

subsection \<open>Content types\<close>

lemma add_file_named_stream:
  assumes "d_file d = BufferedFile (Some (StrName nm)) None"
  shows "add_file g h self (DocumentUpload d) =
     (Inr (),
      h\<lparr>file_lists :=
           (file_lists h)
             (files self := file_lists h (files self) @
                [DocumentUpload (d\<lparr>d_file := BufferedFile (Some (StrName nm)) (fst (g nm))\<rparr>)])\<rparr>)"
  using assms by (simp add: add_file_def guess_content_type_def split: prod.splits)

lemma add_file_without_name:
  assumes "d_file d = BufferedFile None None"
  shows "add_file g h self (DocumentUpload d) = (Inl (AttributeError msg_no_name), h)"
  using assms by (simp add: add_file_def guess_content_type_def)

lemma add_file_as_it_is:
  assumes "\<forall>d nm. f \<noteq> DocumentUpload d \<or> d_file d \<noteq> BufferedFile nm None"
  shows "add_file g h self f =
     (Inr (), h\<lparr>file_lists := (file_lists h)(files self := file_lists h (files self) @ [f])\<rparr>)"
  using assms
  by (auto simp: add_file_def guess_content_type_def split: attachable.splits upload.splits)

text \<open>
  Claim C6 says that \<^verbatim>\<open>add_file\<close> appends the attachment in every case, a failed
  inference leaving the content type unset. For a stream with a string name the code
  does so (\<open>add_file_named_stream\<close>), and it appends an attachment of another shape as
  it is (\<open>add_file_as_it_is\<close>). But it reads \<^verbatim>\<open>file.file.name\<close> bare, where it reads
  the content type through \<^verbatim>\<open>getattr\<close> with a default: for an upload whose stream has
  no name, as a stream in memory, \<^verbatim>\<open>add_file\<close> raises \<^verbatim>\<open>AttributeError\<close>, and for one
  opened on a file descriptor \<^verbatim>\<open>guess_type\<close> raises \<^verbatim>\<open>TypeError\<close>; in both cases the
  store is left as it was and nothing is appended.
\<close>

theorem add_file_raises_without_name:
  "content_type (DocumentUpload bytes_upload) = None \<and>
   add_file guess_pdf store3 plain_builder (DocumentUpload bytes_upload) =
     (Inl (AttributeError msg_no_name), store3) \<and>
   add_file guess_pdf store3 plain_builder (DocumentUpload fd_upload) =
     (Inl (TypeError msg_name_not_str), store3) \<and>
   file_lists store3 (files plain_builder) = []"
  by (simp add: add_file_def guess_content_type_def bytes_upload_def fd_upload_def
      report_upload_def store3_def empty_store_def)

subsection \<open>What a call of \<^verbatim>\<open>create_payload\<close> does\<close>

lemma map_of_dict_set: "map_of (dict_set d k v) = (map_of d)(k \<mapsto> v)"
  by (induction d) (auto simp: fun_eq_iff)

lemma existing_files_set:
  "set (existing_files h self) = attachable_id ` set (file_lists h (files self))"
  by (simp add: existing_files_def truthy_file_def)

lemma create_payload_built:
  assumes "payload self = None" and "truthy_str (name self)"
    and "check_file_payloads (existing_files h self) (dicts h (file_payloads self)) = None"
  shows "create_payload h self =
     (Inr ((payload_kwargs self (fresh h))
             \<lparr>p_signers := Suc (fresh h), p_files := Suc (Suc (fresh h))\<rparr>),
      h\<lparr>dicts := (dicts h)(fresh h := dicts h (file_payloads self)),
        signer_lists := (signer_lists h)(Suc (fresh h) := signer_lists h (signers self)),
        file_lists := (file_lists h)(Suc (Suc (fresh h)) := file_lists h (files self)),
        fresh := Suc (Suc (Suc (fresh h)))\<rparr>)"
  using assms
  by (simp add: create_payload_def get_file_payloads_def CreateEtchFilePayload_def
      CreateEtchPacketPayload_def new_dict_def new_signer_list_def new_file_list_def
      payload_kwargs_def)

lemma create_payload_raises:
  assumes "payload self = None" and "truthy_str (name self)"
    and "check_file_payloads (existing_files h self) (dicts h (file_payloads self)) = Some e"
  shows "create_payload h self = (Inl e, h)"
  using assms by (simp add: create_payload_def get_file_payloads_def)

lemma built: "create_payload store_a plain_builder = (Inr built_payload, built_store)"
proof -
  have "check_file_payloads (existing_files store_a plain_builder)
          (dicts store_a (file_payloads plain_builder)) = None"
    by (simp add: store_a_def empty_store_def plain_builder_def)
  from create_payload_built[OF _ _ this] show ?thesis
    by (simp add: plain_builder_def truthy_str_def built_payload_def built_store_def store_a_def
        empty_store_def)
qed

subsection \<open>Fill payloads\<close>

text \<open>
  Claim C5, as stated: after a successful \<^verbatim>\<open>add_file_payloads(id, data)\<close> on any
  builder, a successful \<^verbatim>\<open>create_payload\<close> includes the data under that id. A builder
  that holds a pre-supplied payload returns that payload, which does not have the entry:
  the builder below has the attachment \<^verbatim>\<open>a\<close>, takes a fill payload for it, and
  materializes to the supplied payload, whose data block has nothing under \<^verbatim>\<open>a\<close>.
\<close>

theorem supplied_payload_misses_fill_payload:
  "add_file_payloads store_a supplied_builder ''a'' (JStr ''x'') = (Inr (), store_a_filled) \<and>
   map_of (dicts store_a_filled (file_payloads supplied_builder)) ''a'' = Some (JStr ''x'') \<and>
   create_payload store_a_filled supplied_builder = (Inr supplied_payload, store_a_filled) \<and>
   map_of (dicts store_a_filled (p_data supplied_payload)) ''a'' = None"
  by (simp add: store_a_filled_def add_file_payloads_def existing_files_def truthy_file_def
      store_a_def empty_store_def supplied_builder_def plain_builder_def file_a_def
      create_payload_def supplied_payload_def)

text \<open>
  Claim C5, amended. For every store and builder, \<^verbatim>\<open>add_file_payloads(id, data)\<close>
  raises a \<^verbatim>\<open>ValueError\<close>, leaving the store as it was, if and only if the id is not
  the id of an attachment in the builder's file list. On success it sets the entry of the
  id in the fill-payload dict to the data and leaves every other entry, every other dict
  and all lists as they were; and, when the builder holds no pre-supplied payload, every
  later \<^verbatim>\<open>create_payload\<close> that returns has the data under that id in its data block.
\<close>

theorem add_file_payloads_checks_id:
  "(fid \<notin> attachable_id ` set (file_lists h (files self)) \<longrightarrow>
      add_file_payloads h self fid v = (Inl (ValueError (msg_not_added fid) None), h)) \<and>
   (fid \<in> attachable_id ` set (file_lists h (files self)) \<longrightarrow>
      (\<exists>h'. add_file_payloads h self fid v = (Inr (), h') \<and>
         map_of (dicts h' (file_payloads self)) = (map_of (dicts h (file_payloads self)))(fid \<mapsto> v) \<and>
         (\<forall>r. r \<noteq> file_payloads self \<longrightarrow> dicts h' r = dicts h r) \<and>
         signer_lists h' = signer_lists h \<and> file_lists h' = file_lists h \<and>
         (\<forall>p h''. payload self = None \<and> create_payload h' self = (Inr p, h'') \<longrightarrow>
            map_of (dicts h'' (p_data p)) fid = Some v)))"
proof -
  have built: "map_of (dicts h'' (p_data p)) fid = Some v"
    if "payload self = None" and "create_payload h' self = (Inr p, h'')"
      and "map_of (dicts h' (file_payloads self)) fid = Some v" for p h' h''
  proof (cases "truthy_str (name self)")
    case False
    then show ?thesis using that by (simp add: create_payload_def)
  next
    case True
    show ?thesis
    proof (cases "check_file_payloads (existing_files h' self) (dicts h' (file_payloads self))")
      case None
      show ?thesis
        using create_payload_built[OF that(1) True None] that(2,3)
        by (auto simp: payload_kwargs_def)
    next
      case (Some e)
      show ?thesis using create_payload_raises[OF that(1) True Some] that(2) by simp
    qed
  qed
  show ?thesis
    using built[of "h\<lparr>dicts := (dicts h)(file_payloads self :=
        dict_set (dicts h (file_payloads self)) fid v)\<rparr>"]
    by (auto simp: add_file_payloads_def existing_files_set map_of_dict_set)
qed

theorem add_file_payloads_checks_id_witness:
  "add_file_payloads store_a plain_builder ''c'' (JStr ''x'') =
     (Inl (ValueError (msg_not_added ''c'') None), store_a) \<and>
   (\<exists>h'. add_file_payloads store_a plain_builder ''a'' (JStr ''x'') = (Inr (), h') \<and>
      (\<exists>p h''. create_payload h' plain_builder = (Inr p, h'') \<and>
         map_of (dicts h'' (p_data p)) ''a'' = Some (JStr ''x'')))"
proof -
  have ids: "attachable_id ` set (file_lists store_a (files plain_builder)) = {''a''}"
    by (simp add: store_a_def plain_builder_def file_a_def)
  have no: "add_file_payloads store_a plain_builder ''c'' (JStr ''x'') =
     (Inl (ValueError (msg_not_added ''c'') None), store_a)"
    using add_file_payloads_checks_id[of "''c''" store_a plain_builder "JStr ''x''"] ids by simp
  obtain h' where h': "add_file_payloads store_a plain_builder ''a'' (JStr ''x'') = (Inr (), h')"
    and incl: "\<forall>p h''. payload plain_builder = None \<and>
            create_payload h' plain_builder = (Inr p, h'') \<longrightarrow>
            map_of (dicts h'' (p_data p)) ''a'' = Some (JStr ''x'')"
    using add_file_payloads_checks_id[of "''a''" store_a plain_builder "JStr ''x''"] ids by auto
  have "\<exists>p h''. create_payload h' plain_builder = (Inr p, h'')"
    using h'
    by (auto simp: add_file_payloads_def create_payload_def get_file_payloads_def
        existing_files_def truthy_file_def store_a_def empty_store_def plain_builder_def
        file_a_def truthy_str_def split: prod.splits)
  then show ?thesis using no h' incl by (auto simp: plain_builder_def)
qed

subsection \<open>Required name\<close>

text \<open>
  Claim C7. Construction raises a \<^verbatim>\<open>TypeError\<close> exactly when no payload is given and
  the name is absent (it is \<^verbatim>\<open>None\<close> or the empty string, the two values that
  \<^verbatim>\<open>not name\<close> accepts), and it returns a builder otherwise. For every builder without
  a pre-supplied payload whose name is unset, \<^verbatim>\<open>create_payload\<close> raises a
  \<^verbatim>\<open>TypeError\<close> and leaves the store as it was.
\<close>

theorem construction_and_materialize_need_name:
  "(kw_payload kw = None \<and> (kw_name kw = None \<or> kw_name kw = Some [])
      \<longrightarrow> init h kw ss fs = (Inl (TypeError msg_missing_name), h)) \<and>
   (\<not> (kw_payload kw = None \<and> (kw_name kw = None \<or> kw_name kw = Some []))
      \<longrightarrow> (\<exists>self h'. init h kw ss fs = (Inr self, h'))) \<and>
   (payload self = None \<and> (name self = None \<or> name self = Some [])
      \<longrightarrow> create_payload h self = (Inl (TypeError msg_name_none), h))"
  by (auto simp: init_def create_payload_def truthy_str_def split: option.splits prod.splits)

theorem construction_and_materialize_need_name_witness:
  "init store3 default_kwargs None None = (Inl (TypeError msg_missing_name), store3) \<and>
   (\<exists>self h'. init store3 (default_kwargs\<lparr>kw_name := Some ''Etch packet''\<rparr>) None None =
      (Inr self, h')) \<and>
   (\<exists>self h'. init store3 (default_kwargs\<lparr>kw_payload := Some supplied_payload\<rparr>) None None =
      (Inr self, h')) \<and>
   create_payload store3 (plain_builder\<lparr>name := None\<rparr>) = (Inl (TypeError msg_name_none), store3)"
  using construction_and_materialize_need_name
      [of default_kwargs store3 None None "plain_builder\<lparr>name := None\<rparr>"]
    construction_and_materialize_need_name
      [of "default_kwargs\<lparr>kw_name := Some ''Etch packet''\<rparr>" store3 None None]
    construction_and_materialize_need_name
      [of "default_kwargs\<lparr>kw_payload := Some supplied_payload\<rparr>" store3 None None]
  by (simp add: default_kwargs_def plain_builder_def)

subsection \<open>A pre-supplied payload\<close>

text \<open>
  Claim C10. For every builder that holds a pre-supplied payload, \<^verbatim>\<open>create_payload\<close>
  returns that payload and leaves the store as it was, whatever the builder's name, lists
  and fill-payload dict are: neither the check of the name nor \<^verbatim>\<open>get_file_payloads\<close>
  has a say. The witness is a builder without a name whose fill-payload dict names an
  attachment that is in no list, for which \<^verbatim>\<open>get_file_payloads\<close> raises.
\<close>

theorem supplied_payload_returned_unchecked:
  "payload self = Some p \<Longrightarrow> create_payload h self = (Inr p, h)"
  by (simp add: create_payload_def)

theorem supplied_payload_returned_unchecked_witness:
  "payload (supplied_builder\<lparr>name := None\<rparr>) = Some supplied_payload \<and>
   get_file_payloads ghost_store (supplied_builder\<lparr>name := None\<rparr>) =
     Inl (ValueError (msg_no_file ''ghost'') None) \<and>
   create_payload ghost_store (supplied_builder\<lparr>name := None\<rparr>) =
     (Inr supplied_payload, ghost_store)"
  using supplied_payload_returned_unchecked
      [of "supplied_builder\<lparr>name := None\<rparr>" supplied_payload ghost_store]
  by (simp add: supplied_builder_def plain_builder_def ghost_store_def empty_store_def
      get_file_payloads_def existing_files_def)

subsection \<open>Materializing twice\<close>

lemma create_payload_again:
  "result_view (snd (create_payload (snd (create_payload h self)) self))
     (fst (create_payload h self)) =
   result_view (snd (create_payload (snd (create_payload h self)) self))
     (fst (create_payload (snd (create_payload h self)) self))"
proof (cases "payload self")
  case (Some p)
  then show ?thesis by (simp add: create_payload_def)
next
  case None
  show ?thesis
  proof (cases "truthy_str (name self)")
    case False
    then show ?thesis using None by (simp add: create_payload_def)
  next
    case True
    show ?thesis
    proof (cases "check_file_payloads (existing_files h self) (dicts h (file_payloads self))")
      case (Some e)
      show ?thesis by (simp add: create_payload_raises[OF None True Some])
    next
      case n: None
      let ?h1 = "snd (create_payload h self)"
      have c1: "create_payload h self =
          (Inr ((payload_kwargs self (fresh h))
                  \<lparr>p_signers := Suc (fresh h), p_files := Suc (Suc (fresh h))\<rparr>), ?h1)"
        using create_payload_built[OF None True n] by simp
      have h1: "?h1 = h\<lparr>dicts := (dicts h)(fresh h := dicts h (file_payloads self)),
        signer_lists := (signer_lists h)(Suc (fresh h) := signer_lists h (signers self)),
        file_lists := (file_lists h)(Suc (Suc (fresh h)) := file_lists h (files self)),
        fresh := Suc (Suc (Suc (fresh h)))\<rparr>"
        using create_payload_built[OF None True n] by simp
      have same: "existing_files ?h1 self = existing_files h self"
        "dicts ?h1 (file_payloads self) = dicts h (file_payloads self)"
        "signer_lists ?h1 (signers self) = signer_lists h (signers self)"
        "file_lists ?h1 (files self) = file_lists h (files self)"
        "fresh ?h1 = Suc (Suc (Suc (fresh h)))"
        by (simp_all add: h1 existing_files_def)
      have n1: "check_file_payloads (existing_files ?h1 self) (dicts ?h1 (file_payloads self)) = None"
        using n same by simp
      note c2 = create_payload_built[OF None True n1]
      show ?thesis
        apply (subst (2) c1)
        apply (subst c2)
        apply (subst c2)
        apply (subst c2)
        apply (simp add: result_view_def view_def same payload_kwargs_def)
        apply (simp add: h1)
        done
    qed
  qed
qed

text \<open>
  Claim C9. For every store and builder, two calls of \<^verbatim>\<open>create_payload\<close> in a row,
  with nothing done to the builder between them, give equal results: the same exception,
  or two payloads that say the same (equal fields, equal signer lists, equal attachment
  lists and equal data blocks) in the store that the second call leaves.
\<close>

theorem create_payload_twice_equal:
  assumes "create_payload h self = (r1, h1)" and "create_payload h1 self = (r2, h2)"
  shows "result_view h2 r1 = result_view h2 r2"
  using create_payload_again[of h self] assms by simp

theorem create_payload_twice_equal_witness:
  "\<exists>p2 h2. create_payload store_a plain_builder = (Inr built_payload, built_store) \<and>
      create_payload built_store plain_builder = (Inr p2, h2) \<and>
      p_signers p2 \<noteq> p_signers built_payload \<and>
      view h2 built_payload = view h2 p2"
proof -
  have "check_file_payloads (existing_files built_store plain_builder)
          (dicts built_store (file_payloads plain_builder)) = None"
    by (simp add: built_store_def store_a_def empty_store_def plain_builder_def)
  from create_payload_built[OF _ _ this]
  obtain p2 h2 where c2: "create_payload built_store plain_builder = (Inr p2, h2)"
    and r: "p_signers p2 = Suc (fresh built_store)"
    by (auto simp: plain_builder_def truthy_str_def)
  have "result_view h2 (Inr built_payload) = result_view h2 (Inr p2)"
    using create_payload_twice_equal[OF built c2] .
  then have "view h2 built_payload = view h2 p2" by (simp add: result_view_def)
  moreover have "p_signers p2 \<noteq> p_signers built_payload"
    using r by (simp add: built_store_def built_payload_def)
  ultimately show ?thesis using built c2 by blast
qed

subsection \<open>Import from a dict\<close>

lemma init_built_from: "init h kw ss fs = (Inr self, h0) \<Longrightarrow> built_from kw self"
  by (auto simp: init_def built_from_def split: if_splits prod.splits)

lemma appended_id:
  "(if truthy_str (s_id d) then s_id (appended h self d) = s_id d
    else id_from_generator (s_id (appended h self d)))"
  by (simp add: appended_def Let_def assign_id_def create_unique_id_def id_from_generator_def)

lemma appended_routing_order:
  "routing_order (appended h self d) =
     (if truthy_int (routing_order d) then routing_order d
      else Some (routing_number (signer_lists h (signers self))))"
  by (simp add: appended_def Let_def assign_id_fields)

lemma add_signers_added:
  assumes "\<forall>d\<in>set ds. signer_type d = ''embedded'' \<or> signer_type d = ''email''"
  shows "\<exists>h1 ds'. add_signers h self (map SignerObj ds) = (Inr (), h1) \<and>
           signer_lists h1 (signers self) = signer_lists h (signers self) @ ds' \<and>
           signers_added (signer_lists h (signers self)) ds' ds \<and>
           file_lists h1 = file_lists h"
  using assms
proof (induction ds arbitrary: h)
  case Nil
  then show ?case by simp
next
  case (Cons d ds)
  let ?h' = "(snd (assign_id h d))\<lparr>signer_lists :=
         (signer_lists h)(signers self := signer_lists h (signers self) @ [appended h self d])\<rparr>"
  have step: "add_signer h self (SignerObj d) = (Inr (), ?h')"
    using add_signer_valid[of d "SignerObj d" h self] Cons.prems by simp
  have l: "signer_lists ?h' (signers self) = signer_lists h (signers self) @ [appended h self d]"
    by simp
  obtain h1 ds' where ih: "add_signers ?h' self (map SignerObj ds) = (Inr (), h1)"
    "signer_lists h1 (signers self) = signer_lists ?h' (signers self) @ ds'"
    "signers_added (signer_lists ?h' (signers self)) ds' ds" "file_lists h1 = file_lists ?h'"
    using Cons.IH[of ?h'] Cons.prems by auto
  have "signers_added (signer_lists h (signers self)) (appended h self d # ds') (d # ds)"
    using ih(3) appended_id[of d h self] appended_routing_order[of h self d]
      appended_same_signer[of h self d]
    by (simp only: l signers_added.simps)
  moreover have "signer_lists h1 (signers self) =
      signer_lists h (signers self) @ (appended h self d # ds')"
    using ih(2) by simp
  moreover have "file_lists h1 = file_lists h" using ih(4) by (simp add: assign_id_store)
  ultimately show ?case using step ih(1)
    by (intro exI[of _ h1] exI[of _ "appended h self d # ds'"]) simp
qed

lemma add_signers_invalid:
  assumes "\<not> (\<forall>d\<in>set ds. signer_type d = ''embedded'' \<or> signer_type d = ''email'')"
  shows "\<exists>h1. add_signers h self (map SignerObj ds) = (Inl (ValueError msg_signer_type None), h1)"
  using assms
proof (induction ds arbitrary: h)
  case Nil
  then show ?case by simp
next
  case (Cons d ds)
  show ?case
  proof (cases "signer_type d = ''embedded'' \<or> signer_type d = ''email''")
    case True
    then have "\<not> (\<forall>d\<in>set ds. signer_type d = ''embedded'' \<or> signer_type d = ''email'')"
      using Cons.prems by auto
    from Cons.IH[OF this] add_signer_valid[OF True, of "SignerObj d" h self] show ?thesis by simp
  next
    case False
    then show ?thesis using add_signer_invalid[of d "SignerObj d" h self] by simp
  qed
qed

lemma add_files_inferred:
  assumes "list_all2 (inferred g) fs' fs"
  shows "add_files g h self fs =
     (Inr (),
      h\<lparr>file_lists := (file_lists h)(files self := file_lists h (files self) @ fs')\<rparr>)"
  using assms
proof (induction fs' fs arbitrary: h rule: list_all2_induct)
  case Nil
  then show ?case by simp
next
  case (Cons f' fs' f fs)
  let ?h1 = "h\<lparr>file_lists := (file_lists h)(files self := file_lists h (files self) @ [f'])\<rparr>"
  have step: "add_file g h self f = (Inr (), ?h1)"
    using Cons.hyps(1) by (simp add: add_file_def inferred_def)
  have cells: "(file_lists ?h1)(files self := file_lists ?h1 (files self) @ fs') =
      (file_lists h)(files self := file_lists h (files self) @ f' # fs')"
    by simp
  have store: "?h1\<lparr>file_lists := (file_lists ?h1)(files self := file_lists ?h1 (files self) @ fs')\<rparr> =
      h\<lparr>file_lists := (file_lists h)(files self := file_lists h (files self) @ f' # fs')\<rparr>"
    by (simp only: cells) simp
  have rest: "add_files g ?h1 self fs =
      (Inr (), h\<lparr>file_lists := (file_lists h)(files self := file_lists h (files self) @ f' # fs')\<rparr>)"
    using Cons.IH[of ?h1] by (simp only: store)
  have first: "add_files g h self (f # fs) = add_files g ?h1 self fs"
    using step by simp
  show ?case by (rule trans[OF first rest])
qed

lemma add_files_raises:
  assumes "list_all2 (inferred g) fs' good" and "guess_content_type g bad = Inl e"
  shows "fst (add_files g h self (good @ bad # rest)) = Inl e"
  using assms
proof (induction fs' good arbitrary: h rule: list_all2_induct)
  case Nil
  then show ?case by (simp add: add_file_def)
next
  case (Cons f' fs' f fs)
  then show ?case by (simp add: add_file_def inferred_def)
qed

text \<open>
  Claim C8, as stated: every error raised by a nested operation during the import is
  wrapped into one \<^verbatim>\<open>ValueError\<close> that carries the original as its cause. Only the
  call of the constructor stands inside the \<^verbatim>\<open>try\<close>. A listed signer of the kind
  \<^verbatim>\<open>sms\<close> makes \<^verbatim>\<open>add_signer\<close> raise, and the import raises this very exception,
  which has no cause, and not a wrapper around it.
\<close>

theorem import_error_not_wrapped:
  "fst (create_from_dict guess_pdf store3 sms_mapping) = Inl (ValueError msg_signer_type None) \<and>
   cause (ValueError msg_signer_type None) = None \<and>
   fst (create_from_dict guess_pdf store3 sms_mapping) \<noteq>
     Inl (ValueError (msg_invalid_payload (ValueError msg_signer_type None))
            (Some (ValueError msg_signer_type None)))"
proof -
  have "fst (create_from_dict guess_pdf store3 sms_mapping) = Inl (ValueError msg_signer_type None)"
    by (simp add: create_from_dict_def sms_mapping_def cls_from_mapping_def init_def
        default_kwargs_def truthy_str_def signers_or_new_def files_or_new_def
        file_payloads_or_new_def new_signer_list_def new_file_list_def new_dict_def
        add_signer_def to_signer_def signer_jackie_def)
  then show ?thesis by simp
qed

text \<open>
  Claim C8, amended. For every dict given to \<^verbatim>\<open>create_from_dict\<close>, the constructor is
  called with all keys but \<^verbatim>\<open>signers\<close> and \<^verbatim>\<open>files\<close>, and a \<^verbatim>\<open>TypeError\<close> of this
  call (a key that is no parameter, or no name and no payload) is wrapped into one
  \<^verbatim>\<open>ValueError\<close> that carries it as its cause. When the call returns, each listed
  signer is added through \<^verbatim>\<open>add_signer\<close> and then each listed attachment through
  \<^verbatim>\<open>add_file\<close>, and an exception of these calls leaves the import as it was raised,
  unwrapped: the \<^verbatim>\<open>ValueError\<close> of \<^verbatim>\<open>add_signer\<close> when a listed signer has a kind that
  is not accepted, and else the exception of \<^verbatim>\<open>add_file\<close> for the first listed
  attachment for which it raises. When no call raises, the import returns a builder with
  the fields the keys give, whose signer list holds the listed signers as \<^verbatim>\<open>add_signer\<close>
  stores them (ids generated and default routing orders assigned where missing) and
  whose attachment list holds the listed attachments as \<^verbatim>\<open>add_file\<close> stores them.
\<close>

theorem create_from_dict_import:
  "(\<forall>k ks. m_other_keys m = k # ks \<longrightarrow>
      create_from_dict g h m = (Inl (wrapped (TypeError (msg_unexpected_keyword k))), h)) \<and>
   (m_other_keys m = [] \<and> kw_payload (m_kwargs m) = None \<and> \<not> truthy_str (kw_name (m_kwargs m)) \<longrightarrow>
      create_from_dict g h m = (Inl (wrapped (TypeError msg_missing_name)), h)) \<and>
   (m_other_keys m = [] \<and> (kw_payload (m_kwargs m) \<noteq> None \<or> truthy_str (kw_name (m_kwargs m))) \<longrightarrow>
      (\<not> (\<forall>d\<in>set (listed (m_signers m)). signer_type d \<in> {''embedded'', ''email''}) \<longrightarrow>
         fst (create_from_dict g h m) = Inl (ValueError msg_signer_type None)) \<and>
      ((\<forall>d\<in>set (listed (m_signers m)). signer_type d \<in> {''embedded'', ''email''}) \<longrightarrow>
         (\<forall>good bad rest fs' e.
            listed (m_files m) = good @ bad # rest \<and>
            list_all2 (inferred g) fs' (map DocumentUpload good) \<and>
            guess_content_type g (DocumentUpload bad) = Inl e \<longrightarrow>
            fst (create_from_dict g h m) = Inl e) \<and>
         (\<forall>fs'. list_all2 (inferred g) fs' (map DocumentUpload (listed (m_files m))) \<longrightarrow>
            (\<exists>self h'. create_from_dict g h m = (Inr self, h') \<and>
               built_from (m_kwargs m) self \<and>
               signers_added [] (signer_lists h' (signers self)) (listed (m_signers m)) \<and>
               file_lists h' (files self) = fs'))))"
proof (intro conjI allI impI)
  fix k ks
  assume "m_other_keys m = k # ks"
  then show "create_from_dict g h m = (Inl (wrapped (TypeError (msg_unexpected_keyword k))), h)"
    by (simp add: create_from_dict_def cls_from_mapping_def wrapped_def)
next
  assume "m_other_keys m = [] \<and> kw_payload (m_kwargs m) = None \<and>
    \<not> truthy_str (kw_name (m_kwargs m))"
  then show "create_from_dict g h m = (Inl (wrapped (TypeError msg_missing_name)), h)"
    by (simp add: create_from_dict_def cls_from_mapping_def init_def wrapped_def)
next
  assume a: "m_other_keys m = [] \<and>
    (kw_payload (m_kwargs m) \<noteq> None \<or> truthy_str (kw_name (m_kwargs m)))"
  assume b: "\<not> (\<forall>d\<in>set (listed (m_signers m)). signer_type d \<in> {''embedded'', ''email''})"
  obtain self h0 where i: "init h (m_kwargs m) None None = (Inr self, h0)"
    using init_succeeds[of "m_kwargs m" h None None] a by blast
  then have c: "cls_from_mapping h m = (Inr self, h0)"
    using a by (simp add: cls_from_mapping_def)
  have "\<not> (\<forall>d\<in>set (listed (m_signers m)).
      signer_type d = ''embedded'' \<or> signer_type d = ''email'')"
    using b by auto
  then obtain h1 where s: "add_signers h0 self (map SignerObj (listed (m_signers m))) =
      (Inl (ValueError msg_signer_type None), h1)"
    using add_signers_invalid[of "listed (m_signers m)" h0 self] by blast
  have "m_signers m \<noteq> None" using b by (cases "m_signers m") auto
  then have "(case m_signers m of None \<Rightarrow> (Inr (), h0)
      | Some ss \<Rightarrow> add_signers h0 self (map SignerObj ss)) =
      (Inl (ValueError msg_signer_type None), h1)"
    using s by (cases "m_signers m") simp_all
  then show "fst (create_from_dict g h m) = Inl (ValueError msg_signer_type None)"
    using c by (simp add: create_from_dict_def)
next
  fix good bad rest fs' e
  assume a: "m_other_keys m = [] \<and>
    (kw_payload (m_kwargs m) \<noteq> None \<or> truthy_str (kw_name (m_kwargs m)))"
  assume b: "\<forall>d\<in>set (listed (m_signers m)). signer_type d \<in> {''embedded'', ''email''}"
  assume f: "listed (m_files m) = good @ bad # rest \<and>
            list_all2 (inferred g) fs' (map DocumentUpload good) \<and>
            guess_content_type g (DocumentUpload bad) = Inl e"
  obtain self h0 where i: "init h (m_kwargs m) None None = (Inr self, h0)"
    using init_succeeds[of "m_kwargs m" h None None] a by blast
  then have c: "cls_from_mapping h m = (Inr self, h0)"
    using a by (simp add: cls_from_mapping_def)
  have valid: "\<forall>d\<in>set (listed (m_signers m)).
      signer_type d = ''embedded'' \<or> signer_type d = ''email''"
    using b by auto
  obtain h1 where s:
    "add_signers h0 self (map SignerObj (listed (m_signers m))) = (Inr (), h1)"
    using add_signers_added[OF valid, of h0 self] by auto
  have sg: "(case m_signers m of None \<Rightarrow> (Inr (), h0)
      | Some ss \<Rightarrow> add_signers h0 self (map SignerObj ss)) = (Inr (), h1)"
    using s by (cases "m_signers m") simp_all
  have "fst (add_files g h1 self (map DocumentUpload good @ DocumentUpload bad #
      map DocumentUpload rest)) = Inl e"
    using add_files_raises[of g fs' "map DocumentUpload good" "DocumentUpload bad" e h1 self] f
    by simp
  then have r: "fst (add_files g h1 self (map DocumentUpload (listed (m_files m)))) = Inl e"
    using f by simp
  have "m_files m \<noteq> None" using f by (cases "m_files m") auto
  then have "fst (case m_files m of None \<Rightarrow> (Inr (), h1)
      | Some fs \<Rightarrow> add_files g h1 self (map DocumentUpload fs)) = Inl e"
    using r by (cases "m_files m") simp_all
  then show "fst (create_from_dict g h m) = Inl e"
    using c sg by (auto simp: create_from_dict_def split: prod.splits sum.splits)
next
  fix fs'
  assume a: "m_other_keys m = [] \<and>
    (kw_payload (m_kwargs m) \<noteq> None \<or> truthy_str (kw_name (m_kwargs m)))"
  assume b: "\<forall>d\<in>set (listed (m_signers m)). signer_type d \<in> {''embedded'', ''email''}"
  assume f: "list_all2 (inferred g) fs' (map DocumentUpload (listed (m_files m)))"
  obtain self h0 where i: "init h (m_kwargs m) None None = (Inr self, h0)"
    using init_succeeds[of "m_kwargs m" h None None] a by blast
  then have c: "cls_from_mapping h m = (Inr self, h0)"
    using a by (simp add: cls_from_mapping_def)
  have valid: "\<forall>d\<in>set (listed (m_signers m)).
      signer_type d = ''embedded'' \<or> signer_type d = ''email''"
    using b by auto
  obtain h1 ds' where s:
    "add_signers h0 self (map SignerObj (listed (m_signers m))) = (Inr (), h1)"
    "signer_lists h1 (signers self) = signer_lists h0 (signers self) @ ds'"
    "signers_added (signer_lists h0 (signers self)) ds' (listed (m_signers m))"
    "file_lists h1 = file_lists h0"
    using add_signers_added[OF valid, of h0 self] by auto
  let ?h2 = "h1\<lparr>file_lists := (file_lists h1)(files self := file_lists h1 (files self) @ fs')\<rparr>"
  have fl0: "add_files g h1 self (map DocumentUpload (listed (m_files m))) = (Inr (), ?h2)"
    using add_files_inferred[OF f] .
  have sg: "(case m_signers m of None \<Rightarrow> (Inr (), h0)
      | Some ss \<Rightarrow> add_signers h0 self (map SignerObj ss)) = (Inr (), h1)"
    using s(1) by (cases "m_signers m") simp_all
  have nil: "m_files m = None \<Longrightarrow> fs' = []" using f by simp
  have fl: "(case m_files m of None \<Rightarrow> (Inr (), h1)
      | Some fs \<Rightarrow> add_files g h1 self (map DocumentUpload fs)) = (Inr (), ?h2)"
    using fl0 nil by (cases "m_files m") simp_all
  have r: "create_from_dict g h m = (Inr self, ?h2)"
    using c by (simp add: create_from_dict_def sg fl)
  have "signers_added [] (signer_lists ?h2 (signers self)) (listed (m_signers m))"
    using s(2,3) init_fresh_lists(1)[OF i] by simp
  moreover have "file_lists ?h2 (files self) = fs'"
    using s(4) init_fresh_lists(2)[OF i] by simp
  ultimately show "\<exists>self h'. create_from_dict g h m = (Inr self, h') \<and>
               built_from (m_kwargs m) self \<and>
               signers_added [] (signer_lists h' (signers self)) (listed (m_signers m)) \<and>
               file_lists h' (files self) = fs'"
    using r init_built_from[OF i] by blast
qed

theorem create_from_dict_import_witness:
  "create_from_dict guess_pdf store3 nameless_mapping =
     (Inl (wrapped (TypeError msg_missing_name)), store3) \<and>
   cause (wrapped (TypeError msg_missing_name)) = Some (TypeError msg_missing_name) \<and>
   create_from_dict guess_pdf store3 (good_mapping\<lparr>m_other_keys := [''colour'']\<rparr>) =
     (Inl (wrapped (TypeError (msg_unexpected_keyword ''colour''))), store3) \<and>
   fst (create_from_dict guess_pdf store3 (sms_mapping\<lparr>m_files := Some []\<rparr>)) =
     Inl (ValueError msg_signer_type None) \<and>
   fst (create_from_dict guess_pdf store3 nameless_file_mapping) =
     Inl (AttributeError msg_no_name) \<and>
   (\<exists>self h'. create_from_dict guess_pdf store3 good_mapping = (Inr self, h') \<and>
      name self = Some ''Etch packet'' \<and>
      signers_added [] (signer_lists h' (signers self)) [signer_jackie] \<and>
      file_lists h' (files self) =
        [DocumentUpload
           ((report_upload ''report.pdf'')
              \<lparr>d_file := BufferedFile (Some (StrName ''report.pdf'')) (Some ''application/pdf'')\<rparr>)])"
proof -
  have 1: "create_from_dict guess_pdf store3 nameless_mapping =
     (Inl (wrapped (TypeError msg_missing_name)), store3)"
    using create_from_dict_import[of nameless_mapping guess_pdf store3]
    by (simp add: nameless_mapping_def default_kwargs_def truthy_str_def)
  have 2: "cause (wrapped (TypeError msg_missing_name)) = Some (TypeError msg_missing_name)"
    by (simp add: wrapped_def)
  have 3: "create_from_dict guess_pdf store3 (good_mapping\<lparr>m_other_keys := [''colour'']\<rparr>) =
     (Inl (wrapped (TypeError (msg_unexpected_keyword ''colour''))), store3)"
    using create_from_dict_import[of "good_mapping\<lparr>m_other_keys := [''colour'']\<rparr>" guess_pdf store3]
    by simp
  have 4: "fst (create_from_dict guess_pdf store3 (sms_mapping\<lparr>m_files := Some []\<rparr>)) =
     Inl (ValueError msg_signer_type None)"
    using create_from_dict_import[of "sms_mapping\<lparr>m_files := Some []\<rparr>" guess_pdf store3]
    by (simp add: sms_mapping_def default_kwargs_def truthy_str_def signer_jackie_def)
  have k: "m_other_keys nameless_file_mapping = [] \<and>
      (kw_payload (m_kwargs nameless_file_mapping) \<noteq> None \<or>
       truthy_str (kw_name (m_kwargs nameless_file_mapping)))"
    "\<forall>d\<in>set (listed (m_signers nameless_file_mapping)). signer_type d \<in> {''embedded'', ''email''}"
    by (simp_all add: nameless_file_mapping_def good_mapping_def default_kwargs_def
        truthy_str_def signer_jackie_def)
  have l: "listed (m_files nameless_file_mapping) = [report_upload ''a.pdf''] @ bytes_upload # [] \<and>
      list_all2 (inferred guess_pdf)
        [DocumentUpload ((report_upload ''a.pdf'')\<lparr>d_file := BufferedFile (Some (StrName ''a.pdf'')) None\<rparr>)]
        (map DocumentUpload [report_upload ''a.pdf'']) \<and>
      guess_content_type guess_pdf (DocumentUpload bytes_upload) = Inl (AttributeError msg_no_name)"
    by (simp add: nameless_file_mapping_def inferred_def guess_content_type_def report_upload_def
        bytes_upload_def guess_pdf_def)
  have 5: "fst (create_from_dict guess_pdf store3 nameless_file_mapping) =
     Inl (AttributeError msg_no_name)"
    using create_from_dict_import[of nameless_file_mapping guess_pdf store3] k l by blast
  have k': "m_other_keys good_mapping = [] \<and>
      (kw_payload (m_kwargs good_mapping) \<noteq> None \<or> truthy_str (kw_name (m_kwargs good_mapping)))"
    "\<forall>d\<in>set (listed (m_signers good_mapping)). signer_type d \<in> {''embedded'', ''email''}"
    by (simp_all add: good_mapping_def default_kwargs_def truthy_str_def signer_jackie_def)
  have l': "list_all2 (inferred guess_pdf)
      [DocumentUpload
           ((report_upload ''report.pdf'')
              \<lparr>d_file := BufferedFile (Some (StrName ''report.pdf'')) (Some ''application/pdf'')\<rparr>)]
      (map DocumentUpload (listed (m_files good_mapping)))"
    by (simp add: good_mapping_def inferred_def guess_content_type_def report_upload_def
        guess_pdf_def)
  obtain self h' where g: "create_from_dict guess_pdf store3 good_mapping = (Inr self, h')"
    "built_from (m_kwargs good_mapping) self"
    "signers_added [] (signer_lists h' (signers self)) (listed (m_signers good_mapping))"
    "file_lists h' (files self) =
        [DocumentUpload
           ((report_upload ''report.pdf'')
              \<lparr>d_file := BufferedFile (Some (StrName ''report.pdf'')) (Some ''application/pdf'')\<rparr>)]"
    using create_from_dict_import[of good_mapping guess_pdf store3] k' l' by blast
  have "name self = Some ''Etch packet''"
    using g(2) by (simp add: built_from_def good_mapping_def)
  moreover have "signers_added [] (signer_lists h' (signers self)) [signer_jackie]"
    using g(3) by (simp add: good_mapping_def)
  ultimately show ?thesis using 1 2 3 4 5 g(1,4) by blast
qed

subsection \<open>The payload and later changes of the builder\<close>

lemma add_signer_frame:
  "signer_lists (snd (add_signer h self x)) r = signer_lists h r \<or> r = signers self"
  "file_lists (snd (add_signer h self x)) = file_lists h"
  "fresh (snd (add_signer h self x)) = fresh h"
  by (auto simp: add_signer_def assign_id_def create_unique_id_def Let_def
      split: sum.splits prod.splits)

lemma add_file_frame:
  "signer_lists (snd (add_file g h self f)) = signer_lists h"
  "r \<noteq> files self \<Longrightarrow> file_lists (snd (add_file g h self f)) r = file_lists h r"
  "fresh (snd (add_file g h self f)) = fresh h"
  by (auto simp: add_file_def split: sum.splits)

lemma mutate_frame:
  "r \<noteq> signers self \<Longrightarrow> signer_lists (snd (mutate g h self m)) r = signer_lists h r"
  "r \<noteq> files self \<Longrightarrow> file_lists (snd (mutate g h self m)) r = file_lists h r"
  "fresh (snd (mutate g h self m)) = fresh h"
proof -
  show "r \<noteq> signers self \<Longrightarrow> signer_lists (snd (mutate g h self m)) r = signer_lists h r"
    using add_signer_frame(1)[of h self _ r]
    by (cases m) (auto simp: add_file_frame add_file_payloads_def)
  show "r \<noteq> files self \<Longrightarrow> file_lists (snd (mutate g h self m)) r = file_lists h r"
    by (cases m) (auto simp: add_signer_frame(2) add_file_frame add_file_payloads_def)
  show "fresh (snd (mutate g h self m)) = fresh h"
    by (cases m) (auto simp: add_signer_frame(3) add_file_frame add_file_payloads_def)
qed

lemma mutate_all_frame:
  "r \<noteq> signers self \<Longrightarrow> signer_lists (mutate_all g h self ms) r = signer_lists h r"
  "r \<noteq> files self \<Longrightarrow> file_lists (mutate_all g h self ms) r = file_lists h r"
  "fresh (mutate_all g h self ms) = fresh h"
  by (induction ms arbitrary: h) (simp_all add: mutate_frame)


text \<open>
  The constructor returns a builder whose cells are allocated, when the lists and the dict
  it is given are; and they stay allocated through every call of the builder's methods.
\<close>

lemma init_allocated:
  assumes "init h kw ss fs = (Inr self, h0)"
    and "case ss of None \<Rightarrow> True | Some a \<Rightarrow> a < fresh h"
    and "case fs of None \<Rightarrow> True | Some a \<Rightarrow> a < fresh h"
    and "case kw_file_payloads kw of None \<Rightarrow> True | Some a \<Rightarrow> a < fresh h"
  shows "allocated h0 self"
  using assms
  by (auto simp: init_def allocated_def signers_or_new_def files_or_new_def
      file_payloads_or_new_def new_signer_list_def new_file_list_def new_dict_def
      split: if_splits prod.splits option.splits)

lemma allocated_mutate_all: "allocated h self \<Longrightarrow> allocated (mutate_all g h self ms) self"
  by (simp add: allocated_def mutate_all_frame)

lemma allocated_create_payload:
  "allocated h self \<Longrightarrow> allocated (snd (create_payload h self)) self"
  by (auto simp: allocated_def create_payload_def get_file_payloads_def CreateEtchFilePayload_def
      CreateEtchPacketPayload_def new_dict_def new_signer_list_def new_file_list_def
      split: option.splits sum.splits)




end
